theory Spec2Isabelle
  imports Complex_Main
begin

section \<open>JavaScript strings\<close>

text \<open>
  A JavaScript string is a sequence of code units. The model covers the code units
  below 256 (Basic Latin and Latin-1 Supplement), which is what the type \<open>char\<close>
  holds; DMARC records are ASCII text. Within that range the white space that
  \<^verbatim>\<open>String.prototype.trim\<close> and \<^verbatim>\<open>parseInt\<close> strip is TAB, LF, VT, FF, CR, SP and
  NBSP, the line terminators that the regular expression atom \<^verbatim>\<open>.\<close> refuses are LF
  and CR, and \<^verbatim>\<open>toLowerCase\<close> moves A-Z and the capital letters of Latin-1 (all of
  0xC0-0xDE but the multiplication sign 0xD7) up by 32.
\<close>

definition isWhiteSpace :: "char \<Rightarrow> bool" where
  "isWhiteSpace c = (of_char c \<in> {9, 10, 11, 12, 13, 32, 160 :: nat})"

definition isLineTerminator :: "char \<Rightarrow> bool" where
  "isLineTerminator c = (of_char c \<in> {10, 13 :: nat})"

definition trim :: "string \<Rightarrow> string" where
  "trim s = rev (dropWhile isWhiteSpace (rev (dropWhile isWhiteSpace s)))"

definition lowerChar :: "char \<Rightarrow> char" where
  "lowerChar c =
     (let n = of_char c :: nat
      in if (65 \<le> n \<and> n \<le> 90) \<or> (192 \<le> n \<and> n \<le> 222 \<and> n \<noteq> 215)
         then char_of (n + 32) else c)"

definition toLowerCase :: "string \<Rightarrow> string" where
  "toLowerCase s = map lowerChar s"

text \<open>
  \<^verbatim>\<open>s.split(sep)\<close> for a one-character separator: the pieces between the
  separators, empty pieces included; the empty string gives one empty piece.
\<close>

fun split :: "char \<Rightarrow> string \<Rightarrow> string list" where
  "split sep [] = [[]]"
| "split sep (c # cs) =
     (if c = sep then [] # split sep cs
      else (case split sep cs of
              [] \<Rightarrow> [[c]]
            | w # ws \<Rightarrow> (c # w) # ws))"

text \<open>\<^verbatim>\<open>parts.join(sep)\<close>.\<close>

fun join :: "string \<Rightarrow> string list \<Rightarrow> string" where
  "join sep [] = []"
| "join sep [x] = x"
| "join sep (x # y # ys) = x @ sep @ join sep (y # ys)"

text \<open>\<^verbatim>\<open>s.startsWith(p)\<close> and \<^verbatim>\<open>s.includes(p)\<close>.\<close>

definition startsWith :: "string \<Rightarrow> string \<Rightarrow> bool" where
  "startsWith s p = (take (length p) s = p)"

fun includesStr :: "string \<Rightarrow> string \<Rightarrow> bool" where
  "includesStr [] p = (p = [])"
| "includesStr (c # cs) p = (startsWith (c # cs) p \<or> includesStr cs p)"

section \<open>JavaScript numbers, as far as the \<open>ri\<close> description needs them\<close>

text \<open>
  \<^verbatim>\<open>parseInt(string)\<close> with no radix: leading white space is skipped, one sign is
  read, a prefix \<^verbatim>\<open>0x\<close> or \<^verbatim>\<open>0X\<close> switches to radix 16, and the longest run of
  digits of the radix is the number; with no digit the result is NaN, here \<open>None\<close>.
\<close>

definition digitValue :: "char \<Rightarrow> nat option" where
  "digitValue c =
     (let n = of_char c :: nat
      in if 48 \<le> n \<and> n \<le> 57 then Some (n - 48)
         else if 97 \<le> n \<and> n \<le> 102 then Some (n - 87)
         else if 65 \<le> n \<and> n \<le> 70 then Some (n - 55)
         else None)"

definition isDigit :: "nat \<Rightarrow> char \<Rightarrow> bool" where
  "isDigit R c = (case digitValue c of None \<Rightarrow> False | Some d \<Rightarrow> d < R)"

fun digitsValue :: "nat \<Rightarrow> nat \<Rightarrow> string \<Rightarrow> nat" where
  "digitsValue R acc [] = acc"
| "digitsValue R acc (c # cs) =
     digitsValue R (acc * R + (case digitValue c of None \<Rightarrow> 0 | Some d \<Rightarrow> d)) cs"

definition parseInt :: "string \<Rightarrow> int option" where
  "parseInt inputString =
     (let S = dropWhile isWhiteSpace inputString;
          sign = (if take 1 S = ''-'' then - 1 else 1 :: int);
          S = (if take 1 S = ''+'' \<or> take 1 S = ''-'' then drop 1 S else S);
          hex = (take 2 S = ''0x'' \<or> take 2 S = ''0X'');
          R = (if hex then 16 else 10);
          S = (if hex then drop 2 S else S);
          Z = takeWhile (isDigit R) S
      in if Z = [] then None else Some (sign * int (digitsValue R 0 Z)))"

text \<open>
  \<^verbatim>\<open>Math.round\<close> takes the nearest integer, a tie going up. The conversion of an
  integral number to a string, as a template literal does it, writes decimal digits
  with a minus sign for a negative number; minus zero is written \<^verbatim>\<open>0\<close>.
\<close>

definition Math_round :: "rat \<Rightarrow> int" where
  "Math_round x = \<lfloor>x + 1 / 2\<rfloor>"

fun natToString :: "nat \<Rightarrow> string" where
  "natToString n =
     (if n < 10 then [''0123456789'' ! n]
      else natToString (n div 10) @ [''0123456789'' ! (n mod 10)])"

declare natToString.simps [simp del]

definition intToString :: "int \<Rightarrow> string" where
  "intToString i = (if i < 0 then ''-'' @ natToString (nat (- i)) else natToString (nat i))"

text \<open>
  JavaScript numbers are IEEE doubles. A parse below \<open>2^53\<close> in magnitude is
  represented exactly, and its quotient by 3600 rounds to the same integer as the
  exact quotient: the quotient is below \<open>2^42\<close>, so the division is off by at most
  \<open>2^-12\<close>, which is less than the distance \<open>1/3600\<close> between a quotient that is
  not a tie and the nearest half. From \<open>2^53\<close> on, the text depends on the rounding of
  doubles, on their exponent notation and, for more than twenty digits, on the
  implementation; the model takes what the runtime writes there as the parameter
  \<open>inexact\<close>, a function of the exact parse.
\<close>

definition hoursText :: "(int \<Rightarrow> string) \<Rightarrow> string \<Rightarrow> string" where
  "hoursText inexact v =
     (case parseInt v of
        None \<Rightarrow> ''NaN''
      | Some n \<Rightarrow>
          if \<bar>n\<bar> < 2 ^ 53 then intToString (Math_round (of_int n / 3600))
          else inexact n)"

section \<open>The table of tag descriptions\<close>

text \<open>
  The tables are object literals read with \<^verbatim>\<open>table[key]\<close>, so a lookup also sees
  what every object inherits from \<^verbatim>\<open>Object.prototype\<close>: eleven built-in functions
  (the handler runs on Deno, it calls \<^verbatim>\<open>Deno.resolveDns\<close>, and Deno removes the
  twelfth property, the accessor \<^verbatim>\<open>__proto__\<close>, at startup). A description is
  therefore a string or, for such a key, a built-in function, which a template literal
  writes as \<^verbatim>\<open>function name() { [native code] }\<close>.
\<close>

datatype js_value = Str string | Fun string

definition objectPrototype :: "string \<Rightarrow> js_value option" where
  "objectPrototype key =
     (if key = ''constructor'' then Some (Fun ''Object'')
      else if key \<in> set [''__defineGetter__'', ''__defineSetter__'', ''hasOwnProperty'',
                ''__lookupGetter__'', ''__lookupSetter__'', ''isPrototypeOf'',
                ''propertyIsEnumerable'', ''toString'', ''valueOf'', ''toLocaleString'']
        then Some (Fun key)
      else None)"

definition templateText :: "js_value \<Rightarrow> string" where
  "templateText x =
     (case x of Str s \<Rightarrow> s | Fun f \<Rightarrow> ''function '' @ f @ ''() { [native code] }'')"

definition p_policies :: "string \<Rightarrow> js_value option" where
  "p_policies v =
     (if v = ''none'' then Some (Str ''No action taken on failing emails (monitoring only)'')
      else if v = ''quarantine''
        then Some (Str ''Failing emails should be treated as suspicious (e.g., moved to spam)'')
      else if v = ''reject'' then Some (Str ''Failing emails should be rejected outright'')
      else objectPrototype v)"

definition sp_policies :: "string \<Rightarrow> js_value option" where
  "sp_policies v =
     (if v = ''none'' then Some (Str ''No action for subdomains'')
      else if v = ''quarantine'' then Some (Str ''Quarantine failing emails from subdomains'')
      else if v = ''reject'' then Some (Str ''Reject failing emails from subdomains'')
      else objectPrototype v)"

definition fo_options :: "string \<Rightarrow> js_value option" where
  "fo_options v =
     (if v = ''0'' then Some (Str ''Generate failure report if all mechanisms fail'')
      else if v = ''1'' then Some (Str ''Generate failure report if any mechanism fails'')
      else if v = ''d'' then Some (Str ''Generate failure report on DKIM failure'')
      else if v = ''s'' then Some (Str ''Generate failure report on SPF failure'')
      else objectPrototype v)"

text \<open>
  The key of \<^verbatim>\<open>tagDescriptions\<close> has been lowercased, so the one inherited key that
  can be asked for is \<^verbatim>\<open>constructor\<close>. Its value, the function \<^verbatim>\<open>Object\<close>, applied
  to a string returns the String object of that string, which the JSON body shows as the
  string itself.
\<close>

definition tagDescriptions :: "(int \<Rightarrow> string) \<Rightarrow> string \<Rightarrow> (string \<Rightarrow> js_value) option" where
  "tagDescriptions inexact key =
     (if key = ''v'' then Some (\<lambda>v. Str (''DMARC version: '' @ v))
      else if key = ''p'' then
        Some (\<lambda>v. case p_policies v of Some d \<Rightarrow> d | None \<Rightarrow> Str (''Policy: '' @ v))
      else if key = ''sp'' then
        Some (\<lambda>v. Str (''Subdomain policy: '' @
                      (case sp_policies v of Some d \<Rightarrow> templateText d | None \<Rightarrow> v)))
      else if key = ''rua'' then Some (\<lambda>v. Str (''Aggregate reports sent to: '' @ v))
      else if key = ''ruf'' then Some (\<lambda>v. Str (''Forensic reports sent to: '' @ v))
      else if key = ''pct'' then
        Some (\<lambda>v. Str (''Policy applies to '' @ v @ ''% of failing emails''))
      else if key = ''adkim'' then
        Some (\<lambda>v. if v = ''s''
                   then Str ''DKIM alignment: Strict (exact domain match required)''
                   else Str ''DKIM alignment: Relaxed (organizational domain match allowed)'')
      else if key = ''aspf'' then
        Some (\<lambda>v. if v = ''s''
                   then Str ''SPF alignment: Strict (exact domain match required)''
                   else Str ''SPF alignment: Relaxed (organizational domain match allowed)'')
      else if key = ''fo'' then
        Some (\<lambda>v. Str (''Failure reporting: '' @
                      (case fo_options v of Some d \<Rightarrow> templateText d | None \<Rightarrow> v)))
      else if key = ''rf'' then Some (\<lambda>v. Str (''Report format: '' @ v))
      else if key = ''ri'' then
        Some (\<lambda>v. Str (''Report interval: '' @ v @ '' seconds ('' @ hoursText inexact v @
                      '' hours)''))
      else if key = ''constructor'' then Some (\<lambda>v. Str v)
      else None)"

section \<open>The record parser\<close>

text \<open>
  \<^verbatim>\<open>DmarcTag\<close>. The field \<^verbatim>\<open>value\<close> is \<open>val\<close> here, \<open>value\<close> being a keyword.
\<close>

record DmarcTag =
  tag :: string
  val :: string
  description :: js_value

text \<open>
  The body of the loop of \<^verbatim>\<open>parseDmarcRecord\<close>: one part becomes one tag.
  \<open>describeTag\<close> is the expression that gives \<^verbatim>\<open>description\<close>. The array that
  \<^verbatim>\<open>split\<close> returns is never empty (\<open>split_not_Nil\<close> below), so the first case of
  \<open>parsePart\<close> is never taken.
\<close>

definition describeTag :: "(int \<Rightarrow> string) \<Rightarrow> string \<Rightarrow> string \<Rightarrow> js_value" where
  "describeTag inexact tagName value =
     (case tagDescriptions inexact tagName of
        Some descriptionFn \<Rightarrow> descriptionFn value
      | None \<Rightarrow> Str (tagName @ '': '' @ value))"

definition parsePart :: "(int \<Rightarrow> string) \<Rightarrow> string \<Rightarrow> DmarcTag" where
  "parsePart inexact part =
     (case split CHR ''='' part of
        [] \<Rightarrow> \<lparr>tag = [], val = [], description = Str []\<rparr>
      | tag0 # valueParts \<Rightarrow>
          (let value = trim (join ''='' valueParts);
               tagName = toLowerCase (trim tag0)
           in \<lparr>tag = tagName, val = value, description = describeTag inexact tagName value\<rparr>))"

fun parseLoop :: "(int \<Rightarrow> string) \<Rightarrow> string list \<Rightarrow> DmarcTag list \<Rightarrow> DmarcTag list" where
  "parseLoop inexact [] tags = tags"
| "parseLoop inexact (part # parts) tags =
     parseLoop inexact parts (tags @ [parsePart inexact part])"

definition parseDmarcRecord :: "(int \<Rightarrow> string) \<Rightarrow> string \<Rightarrow> DmarcTag list" where
  "parseDmarcRecord inexact record0 =
     (let parts = filter (\<lambda>p. p \<noteq> []) (map trim (split CHR '';'' record0))
      in parseLoop inexact parts [])"

section \<open>The policy summary\<close>

definition getPolicyDescription :: "string \<Rightarrow> string" where
  "getPolicyDescription policy =
     (if policy = ''reject'' then
        ''This domain has a strict DMARC policy. Emails that fail DMARC authentication will be rejected by receiving mail servers. This is the strongest protection against email spoofing.''
      else if policy = ''quarantine'' then
        ''This domain has a moderate DMARC policy. Emails that fail DMARC authentication may be treated as suspicious and placed in spam/junk folders.''
      else if policy = ''none'' then
        ''This domain has a monitoring-only DMARC policy. No action is taken on failing emails, but reports may be collected. This provides no protection against spoofing.''
      else ''Unknown policy type.'')"

section \<open>The handler\<close>

text \<open>
  The three replacements that make \<^verbatim>\<open>cleanDomain\<close>. The first two regular
  expressions are anchored at the start. The third, \<^verbatim>\<open>/\/.*$/\<close>, has no flag: its
  \<^verbatim>\<open>.\<close> does not match a line terminator and its \<^verbatim>\<open>$\<close> matches at the end of the
  string only, so it matches from the first slash that no line terminator follows.
\<close>

definition stripDmarcPrefix :: "string \<Rightarrow> string" where
  "stripDmarcPrefix d = (if startsWith d ''_dmarc.'' then drop 7 d else d)"

definition stripScheme :: "string \<Rightarrow> string" where
  "stripScheme d =
     (if startsWith d ''http://'' then drop 7 d
      else if startsWith d ''https://'' then drop 8 d
      else d)"

fun stripPath :: "string \<Rightarrow> string" where
  "stripPath [] = []"
| "stripPath (c # cs) =
     (if c = CHR ''/'' \<and> filter isLineTerminator cs = [] then [] else c # stripPath cs)"

definition cleanDomain :: "string \<Rightarrow> string" where
  "cleanDomain domain = stripPath (stripScheme (stripDmarcPrefix domain))"

definition dmarcDomain :: "string \<Rightarrow> string" where
  "dmarcDomain domain = ''_dmarc.'' @ cleanDomain domain"

text \<open>
  What \<^verbatim>\<open>await Deno.resolveDns(name, "TXT")\<close> does: it returns the TXT records, each
  a list of chunks, or it throws; what it throws is an \<^verbatim>\<open>Error\<close> with a message, or
  some other value. A response is a status and a JSON object, kept as the list of its
  keys and values in the order of the object literal; \<open>JTags\<close> holds the tags as
  the handler passes them on (JSON then leaves out a description that is a function).
\<close>

datatype thrown = ErrorObject string | OtherValue

datatype dns_outcome = Resolved "string list list" | Rejected thrown

datatype json = JBool bool | JString string | JNumber int | JTags "DmarcTag list"

record response =
  status :: nat
  body :: "(string \<times> json) list"

definition isDmarc :: "string \<Rightarrow> bool" where
  "isDmarc r = startsWith (toLowerCase r) ''v=dmarc1''"

definition policyTag :: "DmarcTag list \<Rightarrow> DmarcTag option" where
  "policyTag tags = find (\<lambda>t. tag t = ''p'') tags"

text \<open>
  The body of \<^verbatim>\<open>try\<close> after the query has returned. \<^verbatim>\<open>queryTime\<close> is the rounded
  time that the two readings of the clock around the query give.
\<close>

definition tryBody :: "(int \<Rightarrow> string) \<Rightarrow> string \<Rightarrow> int \<Rightarrow> string list list \<Rightarrow> response" where
  "tryBody inexact cleanDomain0 queryTime records =
     (let dmarcRecord = find isDmarc (map concat records)
      in case dmarcRecord of
           None \<Rightarrow>
             \<lparr>status = 404,
              body = [(''success'', JBool False),
                      (''error'', JString (''No DMARC record found for '' @ cleanDomain0))]\<rparr>
         | Some r \<Rightarrow>
             if r = [] then
               \<lparr>status = 404,
                body = [(''success'', JBool False),
                        (''error'', JString (''No DMARC record found for '' @ cleanDomain0))]\<rparr>
             else
               (let tags = parseDmarcRecord inexact r;
                    policy = (case policyTag tags of
                                None \<Rightarrow> ''none''
                              | Some t \<Rightarrow> if val t = [] then ''none'' else val t)
                in \<lparr>status = 200,
                    body = [(''success'', JBool True),
                            (''domain'', JString cleanDomain0),
                            (''record'', JString r),
                            (''tags'', JTags tags),
                            (''policy'', JString policy),
                            (''policyDescription'', JString (getPolicyDescription policy)),
                            (''queryTime'', JNumber queryTime)]\<rparr>))"

text \<open>The body of \<^verbatim>\<open>catch\<close>.\<close>

definition errorMessage :: "thrown \<Rightarrow> string" where
  "errorMessage err = (case err of ErrorObject m \<Rightarrow> m | OtherValue \<Rightarrow> ''DMARC lookup failed'')"

definition catchBody :: "string \<Rightarrow> thrown \<Rightarrow> response" where
  "catchBody cleanDomain0 err =
     (if includesStr (errorMessage err) ''no record'' then
        \<lparr>status = 404,
         body = [(''success'', JBool False),
                 (''error'', JString (''No DMARC record found for '' @ cleanDomain0 @
                    ''. The domain may not have DMARC configured.''))]\<rparr>
      else
        \<lparr>status = 500,
         body = [(''success'', JBool False), (''error'', JString (errorMessage err))]\<rparr>)"

text \<open>
  \<^verbatim>\<open>handler.GET\<close>. \<open>domain\<close> is \<^verbatim>\<open>url.searchParams.get("domain")\<close>, \<open>None\<close> for
  \<^verbatim>\<open>null\<close>; \<open>resolveDns\<close> is the resolver. The result is the response and the
  names that were looked up, in order.
\<close>

definition GET ::
  "(int \<Rightarrow> string) \<Rightarrow> (string \<Rightarrow> dns_outcome) \<Rightarrow> int \<Rightarrow> string option \<Rightarrow> response \<times> string list"
where
  "GET inexact resolveDns queryTime domain =
     (case domain of
        None \<Rightarrow>
          (\<lparr>status = 400,
            body = [(''success'', JBool False), (''error'', JString ''Domain is required'')]\<rparr>, [])
      | Some d \<Rightarrow>
          if d = [] then
            (\<lparr>status = 400,
              body = [(''success'', JBool False), (''error'', JString ''Domain is required'')]\<rparr>, [])
          else
            (case resolveDns (dmarcDomain d) of
               Resolved records \<Rightarrow>
                 (tryBody inexact (cleanDomain d) queryTime records, [dmarcDomain d])
             | Rejected err \<Rightarrow> (catchBody (cleanDomain d) err, [dmarcDomain d])))"

section \<open>Example inputs\<close>

text \<open>
  A resolver with a handful of names, and a runtime whose arithmetic is exact, for
  the examples that follow the theorems.
\<close>

definition exampleResolver :: "string \<Rightarrow> dns_outcome" where
  "exampleResolver name =
     (if name = ''_dmarc.example.com'' then
        Resolved [[''v=spf1 -all''], [''v=DMARC1; p=quarantine; rua=mailto:d@example.com'']]
      else if name = ''_dmarc.chunks.example'' then
        Resolved [[''v=spf1 -all''], [''V=Dmarc1; p=rej'', ''ect; p=none''], [''v=DMARC1; p=none'']]
      else if name = ''_dmarc.empty-p.example'' then Resolved [[''v=DMARC1; p='']]
      else if name = ''_dmarc.bare-p.example'' then Resolved [[''v=DMARC1; p; p=reject'']]
      else if name = ''_dmarc.no-p.example'' then Resolved [[''v=DMARC1; rua=mailto:d@example.com'']]
      else if name = ''_dmarc.upper.example'' then Resolved [[''V=DMARC1; P=REJECT'']]
      else if name = ''_dmarc.spf-only.example'' then Resolved [[''v=spf1 -all'']]
      else if name = ''_dmarc.no-txt.example'' then Resolved []
      else if name = ''_dmarc.timeout.example'' then Rejected (ErrorObject ''request timed out'')
      else if name = ''_dmarc.odd.example'' then Rejected OtherValue
      else if name = ''_dmarc.lookalike.example'' then
        Resolved [[''google-site-verification=0123456789abcdef''], ['' v=DMARC1; p=reject''],
                  [''spf v=dmarc1; p=reject'']]
      else if name = ''_dmarc.mixed.example'' then
        Resolved [[''google-site-verification=0123456789abcdef''], ['' v=DMARC1; p=none''],
                  [''v=DMARC1; p=reject'']]
      else Rejected (ErrorObject ''no record found for the name''))"

definition exactRuntime :: "int \<Rightarrow> string" where
  "exactRuntime n = intToString (Math_round (of_int n / 3600))"

section \<open>Splitting and joining\<close>

text \<open>
  \<open>split\<close> cuts a string at every separator and nowhere else: joining the pieces
  with the separator gives the string back, and no piece holds a separator. The first
  piece is the text before the first separator; the other pieces, joined again, are
  the text after it.
\<close>

lemma split_not_Nil: "split sep s \<noteq> []"
  by (induction s) (auto split: list.splits)

lemma join_Cons_head: "join sep ((c # w) # ws) = c # join sep (w # ws)"
  by (cases ws) simp_all

lemma join_split: "join [sep] (split sep s) = s"
proof (induction s)
  case Nil
  then show ?case by simp
next
  case (Cons c cs)
  obtain w ws where sp: "split sep cs = w # ws"
    using split_not_Nil [of sep cs] by (cases "split sep cs") auto
  show ?case
  proof (cases "c = sep")
    case True
    then show ?thesis using Cons sp by simp
  next
    case False
    then show ?thesis using Cons sp by (simp add: join_Cons_head)
  qed
qed

lemma split_no_sep: "sep \<notin> set (concat (split sep s))"
  by (induction s) (auto split: list.splits)

lemma split_first_rest:
  "\<exists>ws. split sep s = takeWhile (\<lambda>c. c \<noteq> sep) s # ws \<and>
        join [sep] ws = drop 1 (dropWhile (\<lambda>c. c \<noteq> sep) s)"
proof (induction s)
  case Nil
  then show ?case by simp
next
  case (Cons c cs)
  show ?case
  proof (cases "c = sep")
    case True
    then show ?thesis by (simp add: join_split)
  next
    case False
    then show ?thesis using Cons by auto
  qed
qed

lemma parseLoop_append:
  "parseLoop inexact parts tags = tags @ map (parsePart inexact) parts"
  by (induction parts arbitrary: tags) simp_all

lemma parseDmarcRecord_map:
  "parseDmarcRecord inexact r =
     map (parsePart inexact) (filter (\<lambda>p. p \<noteq> []) (map trim (split CHR '';'' r)))"
  by (simp add: parseDmarcRecord_def parseLoop_append)

lemma tag_parsePart:
  "tag (parsePart inexact part) = toLowerCase (trim (takeWhile (\<lambda>c. c \<noteq> CHR ''='') part))"
  using split_first_rest [of "CHR ''=''" part]
  by (auto simp: parsePart_def Let_def)

lemma val_parsePart:
  "val (parsePart inexact part) = trim (drop 1 (dropWhile (\<lambda>c. c \<noteq> CHR ''='') part))"
  using split_first_rest [of "CHR ''=''" part]
  by (auto simp: parsePart_def Let_def)

lemma trim_Nil: "trim [] = []"
  by (simp add: trim_def)

section \<open>The record parser: order, tag and value\<close>

text \<open>
  C1. For every input, \<open>parseDmarcRecord\<close> returns one tag for each semicolon-separated
  segment that is not empty after trimming, in the order of the segments, so the two
  lengths agree; the segments are the pieces of \<open>split\<close>, which joined with
  semicolons are the input and hold no semicolon. The empty string gives no tag.
\<close>

theorem parseDmarcRecord_order:
  "join '';'' (split CHR '';'' r) = r \<and>
   CHR '';'' \<notin> set (concat (split CHR '';'' r)) \<and>
   parseDmarcRecord inexact r =
     map (parsePart inexact) (filter (\<lambda>p. p \<noteq> []) (map trim (split CHR '';'' r))) \<and>
   length (parseDmarcRecord inexact r) =
     length (filter (\<lambda>p. p \<noteq> []) (map trim (split CHR '';'' r))) \<and>
   parseDmarcRecord inexact [] = []"
proof -
  have "parseDmarcRecord inexact [] = []"
    by (simp add: parseDmarcRecord_def trim_Nil)
  then show ?thesis
    using join_split [of "CHR '';''" r] split_no_sep [of "CHR '';''" r]
    by (simp add: parseDmarcRecord_map)
qed


theorem parseDmarcRecord_order_witness:
  "filter (\<lambda>p. p \<noteq> []) (map trim (split CHR '';'' '' v=DMARC1;; p=reject ;pct=100; '')) =
     [''v=DMARC1'', ''p=reject'', ''pct=100''] \<and>
   parseDmarcRecord exactRuntime '' v=DMARC1;; p=reject ;pct=100; '' =
     [\<lparr>tag = ''v'', val = ''DMARC1'', description = Str ''DMARC version: DMARC1''\<rparr>,
      \<lparr>tag = ''p'', val = ''reject'',
       description = Str ''Failing emails should be rejected outright''\<rparr>,
      \<lparr>tag = ''pct'', val = ''100'',
       description = Str ''Policy applies to 100% of failing emails''\<rparr>] \<and>
   length (parseDmarcRecord exactRuntime '' v=DMARC1;; p=reject ;pct=100; '') = 3"
proof -
  have segs: "filter (\<lambda>p. p \<noteq> []) (map trim (split CHR '';'' '' v=DMARC1;; p=reject ;pct=100; '')) =
     [''v=DMARC1'', ''p=reject'', ''pct=100'']"
    by code_simp
  have parts: "map (parsePart exactRuntime) [''v=DMARC1'', ''p=reject'', ''pct=100''] =
     [\<lparr>tag = ''v'', val = ''DMARC1'', description = Str ''DMARC version: DMARC1''\<rparr>,
      \<lparr>tag = ''p'', val = ''reject'',
       description = Str ''Failing emails should be rejected outright''\<rparr>,
      \<lparr>tag = ''pct'', val = ''100'',
       description = Str ''Policy applies to 100% of failing emails''\<rparr>]"
    by code_simp
  show ?thesis
    using parseDmarcRecord_order [of "'' v=DMARC1;; p=reject ;pct=100; ''" exactRuntime]
    by (simp only: segs parts) simp
qed

text \<open>
  C2. The tag at position \<open>i\<close> comes from the segment at position \<open>i\<close>, cut at its
  first \<^verbatim>\<open>=\<close> only: the tag name is the text before it, trimmed and then lowercased;
  the value is all the text after it, later \<^verbatim>\<open>=\<close> signs included, trimmed; a
  segment with no \<^verbatim>\<open>=\<close> has the empty value.
\<close>

theorem parseDmarcRecord_first_equals:
  "i < length (parseDmarcRecord inexact r) \<longrightarrow>
     (let seg = filter (\<lambda>p. p \<noteq> []) (map trim (split CHR '';'' r)) ! i;
          t = parseDmarcRecord inexact r ! i
      in tag t = toLowerCase (trim (takeWhile (\<lambda>c. c \<noteq> CHR ''='') seg)) \<and>
         val t = trim (drop 1 (dropWhile (\<lambda>c. c \<noteq> CHR ''='') seg)) \<and>
         (CHR ''='' \<notin> set seg \<longrightarrow> val t = []))"
proof
  assume i: "i < length (parseDmarcRecord inexact r)"
  define segs where "segs = filter (\<lambda>p. p \<noteq> []) (map trim (split CHR '';'' r))"
  have len: "i < length segs"
    using i by (simp add: parseDmarcRecord_map segs_def)
  have t: "parseDmarcRecord inexact r ! i = parsePart inexact (segs ! i)"
    using len by (simp add: parseDmarcRecord_map segs_def)
  have none: "val (parsePart inexact (segs ! i)) = []" if "CHR ''='' \<notin> set (segs ! i)"
  proof -
    have dw: "dropWhile (\<lambda>c. c \<noteq> CHR ''='') (segs ! i) = []"
      using that by (auto simp: dropWhile_eq_Nil_conv)
    show ?thesis unfolding val_parsePart dw by (simp add: trim_Nil)
  qed
  show "let seg = filter (\<lambda>p. p \<noteq> []) (map trim (split CHR '';'' r)) ! i;
          t = parseDmarcRecord inexact r ! i
      in tag t = toLowerCase (trim (takeWhile (\<lambda>c. c \<noteq> CHR ''='') seg)) \<and>
         val t = trim (drop 1 (dropWhile (\<lambda>c. c \<noteq> CHR ''='') seg)) \<and>
         (CHR ''='' \<notin> set seg \<longrightarrow> val t = [])"
    unfolding Let_def segs_def [symmetric] t
    using none by (simp add: tag_parsePart val_parsePart)
qed

theorem parseDmarcRecord_first_equals_witness:
  "tag (parseDmarcRecord exactRuntime ''v=DMARC1; Fo = 0=1 = d ;ZZ ; p='' ! 1) = ''fo'' \<and>
   val (parseDmarcRecord exactRuntime ''v=DMARC1; Fo = 0=1 = d ;ZZ ; p='' ! 1) = ''0=1 = d'' \<and>
   tag (parseDmarcRecord exactRuntime ''v=DMARC1; Fo = 0=1 = d ;ZZ ; p='' ! 2) = ''zz'' \<and>
   val (parseDmarcRecord exactRuntime ''v=DMARC1; Fo = 0=1 = d ;ZZ ; p='' ! 2) = []"
proof -
  have len: "length (parseDmarcRecord exactRuntime ''v=DMARC1; Fo = 0=1 = d ;ZZ ; p='') = 4"
    by code_simp
  have segs: "filter (\<lambda>p. p \<noteq> []) (map trim (split CHR '';'' ''v=DMARC1; Fo = 0=1 = d ;ZZ ; p=''))
      = [''v=DMARC1'', ''Fo = 0=1 = d'', ''ZZ'', ''p='']"
    by code_simp
  have fo: "toLowerCase (trim ''Fo '') = ''fo''" "trim '' 0=1 = d'' = ''0=1 = d''"
    by code_simp+
  have zz: "toLowerCase (trim ''ZZ'') = ''zz''" "trim [] = []"
    by code_simp+
  show ?thesis
    using parseDmarcRecord_first_equals [of 1 exactRuntime "''v=DMARC1; Fo = 0=1 = d ;ZZ ; p=''"]
      parseDmarcRecord_first_equals [of 2 exactRuntime "''v=DMARC1; Fo = 0=1 = d ;ZZ ; p=''"]
    unfolding len segs Let_def
    by (simp add: fo zz)
qed

section \<open>The descriptions of single tags\<close>

text \<open>
  C8. For \<^verbatim>\<open>adkim\<close> and \<^verbatim>\<open>aspf\<close> the value \<^verbatim>\<open>s\<close> gives the strict sentence and
  every other value, whatever it is, gives the relaxed sentence.
\<close>

theorem describeTag_alignment:
  "describeTag inexact ''adkim'' ''s'' =
     Str ''DKIM alignment: Strict (exact domain match required)'' \<and>
   describeTag inexact ''aspf'' ''s'' =
     Str ''SPF alignment: Strict (exact domain match required)'' \<and>
   (v \<noteq> ''s'' \<longrightarrow>
      describeTag inexact ''adkim'' v =
        Str ''DKIM alignment: Relaxed (organizational domain match allowed)'' \<and>
      describeTag inexact ''aspf'' v =
        Str ''SPF alignment: Relaxed (organizational domain match allowed)'')"
  by (simp add: describeTag_def tagDescriptions_def)

theorem describeTag_alignment_witness:
  "describeTag exactRuntime ''adkim'' ''r'' =
     Str ''DKIM alignment: Relaxed (organizational domain match allowed)'' \<and>
   describeTag exactRuntime ''adkim'' ''x'' =
     Str ''DKIM alignment: Relaxed (organizational domain match allowed)'' \<and>
   describeTag exactRuntime ''aspf'' [] =
     Str ''SPF alignment: Relaxed (organizational domain match allowed)'' \<and>
   describeTag exactRuntime ''aspf'' ''S'' =
     Str ''SPF alignment: Relaxed (organizational domain match allowed)'' \<and>
   map description (parseDmarcRecord exactRuntime ''adkim=s; ADKIM=x; aspf=s; aspf'') =
     [Str ''DKIM alignment: Strict (exact domain match required)'',
      Str ''DKIM alignment: Relaxed (organizational domain match allowed)'',
      Str ''SPF alignment: Strict (exact domain match required)'',
      Str ''SPF alignment: Relaxed (organizational domain match allowed)'']"
proof -
  have tags: "parseDmarcRecord exactRuntime ''adkim=s; ADKIM=x; aspf=s; aspf'' =
     [\<lparr>tag = ''adkim'', val = ''s'', description = describeTag exactRuntime ''adkim'' ''s''\<rparr>,
      \<lparr>tag = ''adkim'', val = ''x'', description = describeTag exactRuntime ''adkim'' ''x''\<rparr>,
      \<lparr>tag = ''aspf'', val = ''s'', description = describeTag exactRuntime ''aspf'' ''s''\<rparr>,
      \<lparr>tag = ''aspf'', val = [], description = describeTag exactRuntime ''aspf'' []\<rparr>]"
    by code_simp
  show ?thesis
    using describeTag_alignment [of exactRuntime "''r''"]
      describeTag_alignment [of exactRuntime "''x''"]
      describeTag_alignment [of exactRuntime "[]"]
      describeTag_alignment [of exactRuntime "''S''"]
    by (simp add: tags)
qed

subsection \<open>Rounding, and the decimal notation of integers\<close>

lemma Math_round_nearest: "\<bar>of_int (Math_round x) - x\<bar> \<le> 1 / 2"
  unfolding Math_round_def by linarith

lemma Math_round_div: "Math_round (of_int n / 3600) = (n + 1800) div 3600"
proof -
  have "(of_int n / 3600 + 1 / 2 :: rat) = of_int (n + 1800) / of_int 3600"
    by (simp add: field_simps)
  then show ?thesis
    unfolding Math_round_def by (simp only: floor_divide_of_int_eq)
qed

lemma decimal_digit_cases:
  "k < 10 \<Longrightarrow> k = 0 \<or> k = 1 \<or> k = 2 \<or> k = 3 \<or> k = 4 \<or> k = 5 \<or> k = 6 \<or> k = 7 \<or> k = 8 \<or> k = (9::nat)"
  by arith

lemma digitValue_decimal: "k < 10 \<Longrightarrow> digitValue (''0123456789'' ! k) = Some k"
  using decimal_digit_cases [of k] by (auto simp: digitValue_def)

lemma decimal_not_special:
  assumes "k < 10"
  shows "\<not> isWhiteSpace (''0123456789'' ! k)"
    and "''0123456789'' ! k \<noteq> CHR ''-''"
    and "''0123456789'' ! k \<noteq> CHR ''+''"
    and "''0123456789'' ! k \<noteq> CHR ''x''"
    and "''0123456789'' ! k \<noteq> CHR ''X''"
  using decimal_digit_cases [OF assms] by (auto simp: isWhiteSpace_def)

lemma isDigit_decimal: "k < 10 \<Longrightarrow> isDigit 10 (''0123456789'' ! k)"
  by (simp add: isDigit_def digitValue_decimal)

lemma digitsValue_snoc:
  "digitsValue R acc (cs @ [c]) =
     digitsValue R acc cs * R + (case digitValue c of None \<Rightarrow> 0 | Some d \<Rightarrow> d)"
  by (induction cs arbitrary: acc) simp_all

lemma natToString_small: "n < 10 \<Longrightarrow> natToString n = [''0123456789'' ! n]"
  by (subst natToString.simps) simp

lemma natToString_large:
  "\<not> n < 10 \<Longrightarrow> natToString n = natToString (n div 10) @ [''0123456789'' ! (n mod 10)]"
  by (subst natToString.simps) simp

lemma natToString_digits: "c \<in> set (natToString n) \<Longrightarrow> \<exists>k<10. c = ''0123456789'' ! k"
proof (induction n arbitrary: c rule: natToString.induct)
  case (1 n)
  show ?case
  proof (cases "n < 10")
    case True
    then show ?thesis using "1.prems" by (auto simp: natToString_small)
  next
    case False
    have "c \<in> set (natToString (n div 10)) \<or> c = ''0123456789'' ! (n mod 10)"
      using "1.prems" unfolding natToString_large [OF False] by auto
    then show ?thesis
    proof
      assume "c \<in> set (natToString (n div 10))"
      then show ?thesis using "1.IH" [OF False] by blast
    next
      assume "c = ''0123456789'' ! (n mod 10)"
      moreover have "n mod 10 < 10" by simp
      ultimately show ?thesis by blast
    qed
  qed
qed

lemma natToString_not_Nil: "natToString n \<noteq> []"
  by (subst natToString.simps) simp

lemma digitsValue_natToString: "digitsValue 10 0 (natToString n) = n"
proof (induction n rule: natToString.induct)
  case (1 n)
  show ?case
  proof (cases "n < 10")
    case True
    then show ?thesis by (simp add: natToString_small digitValue_decimal)
  next
    case False
    have "n mod 10 < 10" by simp
    then show ?thesis
      using False "1.IH" unfolding natToString_large [OF False] digitsValue_snoc
      by (simp add: digitValue_decimal)
  qed
qed

lemma parseInt_decimal:
  assumes ne: "S \<noteq> []"
    and digits: "\<And>x. x \<in> set S \<Longrightarrow> \<exists>k<10. x = ''0123456789'' ! k"
  shows "parseInt S = Some (int (digitsValue 10 0 S))"
    and "parseInt (CHR ''-'' # S) = Some (- int (digitsValue 10 0 S))"
proof -
  obtain c cs where s: "S = c # cs"
    using ne by (cases S) auto
  have c: "\<not> isWhiteSpace c" "c \<noteq> CHR ''-''" "c \<noteq> CHR ''+''"
    using digits [of c] decimal_not_special unfolding s by auto
  have dw: "dropWhile isWhiteSpace S = S"
    using c by (simp add: s)
  have sg: "take (Suc 0) S \<noteq> ''-''" "take (Suc 0) S \<noteq> ''+''"
    using c by (simp_all add: s)
  have hx: "take 2 S \<noteq> ''0x''" "take 2 S \<noteq> ''0X''"
  proof -
    have "cs \<noteq> [] \<Longrightarrow> hd cs \<noteq> CHR ''x'' \<and> hd cs \<noteq> CHR ''X''"
      using digits [of "hd cs"] decimal_not_special unfolding s by (cases cs) auto
    then show "take 2 S \<noteq> ''0x''" "take 2 S \<noteq> ''0X''"
      unfolding s by (cases cs; auto)+
  qed
  have all: "takeWhile (isDigit 10) S = S"
  proof -
    have "\<And>x. x \<in> set S \<Longrightarrow> isDigit 10 x"
      using digits isDigit_decimal by blast
    then show ?thesis by (simp only: takeWhile_eq_all_conv) blast
  qed
  show "parseInt S = Some (int (digitsValue 10 0 S))"
    unfolding parseInt_def by (simp add: Let_def dw sg hx all ne)
  have ws: "\<not> isWhiteSpace CHR ''-''"
    by (simp add: isWhiteSpace_def)
  show "parseInt (CHR ''-'' # S) = Some (- int (digitsValue 10 0 S))"
    unfolding parseInt_def by (simp add: Let_def ws hx all ne)
qed

lemma parseInt_natToString:
  "parseInt (natToString n) = Some (int n)"
  "parseInt (CHR ''-'' # natToString n) = Some (- int n)"
  using parseInt_decimal [of "natToString n"] natToString_not_Nil [of n]
    natToString_digits [of _ n]
  by (simp_all add: digitsValue_natToString)

lemma parseInt_intToString: "parseInt (intToString i) = Some i"
  by (simp add: intToString_def parseInt_natToString)

lemma parseInt_no_digit:
  assumes "filter (isDigit 10) v = []"
  shows "parseInt v = None"
proof -
  have nd: "\<And>c. c \<in> set v \<Longrightarrow> \<not> isDigit 10 c"
    using assms by (simp add: filter_empty_conv)
  define S where "S = dropWhile isWhiteSpace v"
  define T where "T = (if take 1 S = ''+'' \<or> take 1 S = ''-'' then drop 1 S else S)"
  have "set S \<subseteq> set v"
    unfolding S_def by (auto dest: set_dropWhileD)
  moreover have "set T \<subseteq> set S"
    unfolding T_def by (auto dest: in_set_dropD)
  ultimately have sub: "set T \<subseteq> set v"
    by blast
  have zero: "isDigit 10 CHR ''0''"
    by (simp add: isDigit_def digitValue_def)
  have "CHR ''0'' \<notin> set (take 2 T)"
    using nd zero sub by (auto dest: in_set_takeD)
  then have hx: "take 2 T \<noteq> ''0x''" "take 2 T \<noteq> ''0X''"
    by auto
  have tw: "takeWhile (isDigit 10) T = []"
    using nd sub by (cases T) auto
  have "parseInt v =
      (if takeWhile (isDigit (if take 2 T = ''0x'' \<or> take 2 T = ''0X'' then 16 else 10))
            (if take 2 T = ''0x'' \<or> take 2 T = ''0X'' then drop 2 T else T) = []
       then None
       else Some ((if take 1 S = ''-'' then - 1 else 1) *
              int (digitsValue (if take 2 T = ''0x'' \<or> take 2 T = ''0X'' then 16 else 10) 0
                (takeWhile (isDigit (if take 2 T = ''0x'' \<or> take 2 T = ''0X'' then 16 else 10))
                  (if take 2 T = ''0x'' \<or> take 2 T = ''0X'' then drop 2 T else T)))))"
    unfolding parseInt_def Let_def T_def S_def ..
  then show ?thesis
    by (simp add: hx tw)
qed

lemma parseInt_leading_decimal:
  assumes ne: "S \<noteq> []"
    and digits: "\<And>x. x \<in> set S \<Longrightarrow> \<exists>k<10. x = ''0123456789'' ! k"
    and tail: "t = [] \<or> (\<not> isDigit 10 (hd t) \<and> hd t \<noteq> CHR ''x'' \<and> hd t \<noteq> CHR ''X'')"
  shows "parseInt (S @ t) = Some (int (digitsValue 10 0 S))"
    and "parseInt (CHR ''-'' # S @ t) = Some (- int (digitsValue 10 0 S))"
proof -
  define V where "V = S @ t"
  obtain c cs where s: "S = c # cs"
    using ne by (cases S) auto
  have c: "\<not> isWhiteSpace c" "c \<noteq> CHR ''-''" "c \<noteq> CHR ''+''"
    using digits [of c] decimal_not_special unfolding s by auto
  have vne: "V \<noteq> []"
    by (simp add: V_def s)
  have dw: "dropWhile isWhiteSpace V = V"
    using c by (simp add: V_def s)
  have sg: "take (Suc 0) V \<noteq> ''-''" "take (Suc 0) V \<noteq> ''+''"
    using c by (simp_all add: V_def s)
  have second: "hd (cs @ t) \<noteq> CHR ''x'' \<and> hd (cs @ t) \<noteq> CHR ''X''" if "cs @ t \<noteq> []"
  proof (cases cs)
    case Nil
    then show ?thesis using that tail by auto
  next
    case (Cons y ys)
    then show ?thesis
      using digits [of y] decimal_not_special unfolding s by auto
  qed
  have hx: "take 2 V \<noteq> ''0x''" "take 2 V \<noteq> ''0X''"
    using second unfolding V_def s by (cases "cs @ t"; auto)+
  have "\<And>x. x \<in> set S \<Longrightarrow> isDigit 10 x"
    using digits isDigit_decimal by blast
  moreover have "takeWhile (isDigit 10) t = []"
    using tail by (cases t) auto
  ultimately have all: "takeWhile (isDigit 10) V = S"
    by (simp add: V_def takeWhile_append2)
  have "parseInt V = Some (int (digitsValue 10 0 S))"
    unfolding parseInt_def by (simp add: Let_def dw sg hx all ne)
  then show "parseInt (S @ t) = Some (int (digitsValue 10 0 S))"
    by (simp only: V_def)
  have ws: "\<not> isWhiteSpace CHR ''-''"
    by (simp add: isWhiteSpace_def)
  have "parseInt (CHR ''-'' # V) = Some (- int (digitsValue 10 0 S))"
    unfolding parseInt_def by (simp add: Let_def ws hx all ne)
  then show "parseInt (CHR ''-'' # S @ t) = Some (- int (digitsValue 10 0 S))"
    by (simp only: V_def)
qed

lemma parseInt_leading_numeral:
  assumes "t = [] \<or> (\<not> isDigit 10 (hd t) \<and> hd t \<noteq> CHR ''x'' \<and> hd t \<noteq> CHR ''X'')"
  shows "parseInt (intToString i @ t) = Some i"
proof -
  have "parseInt (natToString n @ t) = Some (int n)"
    "parseInt (CHR ''-'' # natToString n @ t) = Some (- int n)" for n
    using parseInt_leading_decimal [of "natToString n" t, OF natToString_not_Nil _ assms]
      natToString_digits [of _ n]
    by (simp_all add: digitsValue_natToString)
  then show ?thesis
    by (simp add: intToString_def)
qed

lemma not_numeral_12abc: "intToString n \<noteq> ''12abc''"
proof
  assume e: "intToString n = ''12abc''"
  have "\<not> n < 0"
    using e by (auto simp: intToString_def)
  then have "natToString (nat n) = ''12abc''"
    using e by (simp add: intToString_def)
  then have "CHR ''a'' \<in> set (natToString (nat n))"
    by simp
  then obtain k where k: "k < 10" "CHR ''a'' = ''0123456789'' ! k"
    using natToString_digits by blast
  show False
    using decimal_digit_cases [OF k(1)] k(2) by auto
qed

text \<open>
  C7, as amended. The description of \<^verbatim>\<open>ri\<close> is
  \<^verbatim>\<open>Report interval: <value> seconds (<h> hours)\<close> for every value. When \<^verbatim>\<open>parseInt\<close>
  finds no number in the value, as for every value without a decimal digit, \<open>h\<close> is
  \<^verbatim>\<open>NaN\<close> and nothing fails. When it finds \<open>n\<close>, below \<open>2^53\<close> in magnitude, \<open>h\<close> is
  the decimal notation of an integer at most one half away from \<open>n / 3600\<close>, the
  upper one at a tie. What \<^verbatim>\<open>parseInt\<close> finds is the leading numeral: the decimal
  notation of \<open>n\<close>, alone or followed by text that starts with no digit and no
  \<^verbatim>\<open>x\<close>, parses to \<open>n\<close>.
\<close>

theorem describeTag_ri:
  "describeTag inexact ''ri'' v =
     Str (''Report interval: '' @ v @ '' seconds ('' @ hoursText inexact v @ '' hours)'') \<and>
   (parseInt v = None \<longrightarrow> hoursText inexact v = ''NaN'') \<and>
   (filter (isDigit 10) v = [] \<longrightarrow> hoursText inexact v = ''NaN'') \<and>
   (parseInt v = Some n \<and> \<bar>n\<bar> < 2 ^ 53 \<longrightarrow>
      hoursText inexact v = intToString (Math_round (of_int n / 3600)) \<and>
      \<bar>of_int (Math_round (of_int n / 3600)) - (of_int n / 3600 :: rat)\<bar> \<le> 1 / 2 \<and>
      Math_round (of_int n / 3600) = (n + 1800) div 3600) \<and>
   parseInt (intToString n) = Some n \<and>
   (t = [] \<or> (\<not> isDigit 10 (hd t) \<and> hd t \<noteq> CHR ''x'' \<and> hd t \<noteq> CHR ''X'') \<longrightarrow>
      parseInt (intToString n @ t) = Some n)"
proof -
  have "describeTag inexact ''ri'' v =
     Str (''Report interval: '' @ v @ '' seconds ('' @ hoursText inexact v @ '' hours)'')"
    by (simp add: describeTag_def tagDescriptions_def)
  moreover have "parseInt v = None \<longrightarrow> hoursText inexact v = ''NaN''"
    by (simp add: hoursText_def)
  moreover have "filter (isDigit 10) v = [] \<longrightarrow> hoursText inexact v = ''NaN''"
    using parseInt_no_digit [of v] by (simp add: hoursText_def)
  moreover have "parseInt v = Some n \<and> \<bar>n\<bar> < 2 ^ 53 \<longrightarrow>
      hoursText inexact v = intToString (Math_round (of_int n / 3600))"
    by (simp add: hoursText_def)
  ultimately show ?thesis
    using Math_round_nearest [of "of_int n / 3600"] Math_round_div [of n]
      parseInt_intToString [of n] parseInt_leading_numeral [of t n]
    by blast
qed

theorem describeTag_ri_witness:
  "describeTag exactRuntime ''ri'' ''86400'' = Str ''Report interval: 86400 seconds (24 hours)'' \<and>
   describeTag exactRuntime ''ri'' ''1800'' = Str ''Report interval: 1800 seconds (1 hours)'' \<and>
   describeTag exactRuntime ''ri'' ''-5400'' = Str ''Report interval: -5400 seconds (-1 hours)'' \<and>
   describeTag exactRuntime ''ri'' ''0x1C20'' = Str ''Report interval: 0x1C20 seconds (2 hours)'' \<and>
   describeTag exactRuntime ''ri'' ''12abc'' = Str ''Report interval: 12abc seconds (0 hours)'' \<and>
   describeTag exactRuntime ''ri'' ''abc'' = Str ''Report interval: abc seconds (NaN hours)'' \<and>
   describeTag exactRuntime ''ri'' [] = Str ''Report interval:  seconds (NaN hours)'' \<and>
   parseInt (intToString 12 @ ''abc'') = Some 12"
proof -
  have p: "parseInt ''86400'' = Some 86400" "parseInt ''1800'' = Some 1800"
    "parseInt ''-5400'' = Some (- 5400)" "parseInt ''0x1C20'' = Some 7200"
    "parseInt ''12abc'' = Some 12" "parseInt ''abc'' = None" "parseInt [] = None"
    by (simp_all add: parseInt_def isWhiteSpace_def isDigit_def digitValue_def Let_def)
  have t: "intToString 24 = ''24''" "intToString 1 = ''1''" "intToString (- 1) = ''-1''"
    "intToString 2 = ''2''" "intToString 0 = ''0''"
    by (simp_all add: intToString_def natToString.simps)
  have a: "describeTag exactRuntime ''ri'' ''86400'' = Str ''Report interval: 86400 seconds (24 hours)''"
    using describeTag_ri [of exactRuntime "''86400''" 86400] by (simp add: p t)
  have b: "describeTag exactRuntime ''ri'' ''1800'' = Str ''Report interval: 1800 seconds (1 hours)''"
    using describeTag_ri [of exactRuntime "''1800''" 1800] by (simp add: p t)
  have c: "describeTag exactRuntime ''ri'' ''-5400'' = Str ''Report interval: -5400 seconds (-1 hours)''"
    using describeTag_ri [of exactRuntime "''-5400''" "- 5400"] by (simp add: p t)
  have d: "describeTag exactRuntime ''ri'' ''0x1C20'' = Str ''Report interval: 0x1C20 seconds (2 hours)''"
    using describeTag_ri [of exactRuntime "''0x1C20''" 7200] by (simp add: p t)
  have e: "describeTag exactRuntime ''ri'' ''12abc'' = Str ''Report interval: 12abc seconds (0 hours)''"
    using describeTag_ri [of exactRuntime "''12abc''" 12] by (simp add: p t)
  have f: "describeTag exactRuntime ''ri'' ''abc'' = Str ''Report interval: abc seconds (NaN hours)''"
    using describeTag_ri [of exactRuntime "''abc''" 0] by (simp add: p)
  have g: "describeTag exactRuntime ''ri'' [] = Str ''Report interval:  seconds (NaN hours)''"
    using describeTag_ri [of exactRuntime "[]" 0] by (simp add: p)
  have h: "parseInt (intToString 12 @ ''abc'') = Some 12"
    using describeTag_ri [of exactRuntime "[]" 12 "''abc''"]
    by (simp add: isDigit_def digitValue_def)
  show ?thesis
    using a b c d e f g h by simp
qed

text \<open>
  The claim as first stated has \<^verbatim>\<open>NaN\<close> for every value that is not a number. The
  value \<^verbatim>\<open>12abc\<close> is the decimal notation of no integer, and its description has
  \<^verbatim>\<open>0 hours\<close>: \<^verbatim>\<open>parseInt\<close> reads the leading \<^verbatim>\<open>12\<close>.
\<close>

theorem describeTag_ri_counterexample:
  "(\<forall>n. intToString n \<noteq> ''12abc'') \<and>
   describeTag exactRuntime ''ri'' ''12abc'' = Str ''Report interval: 12abc seconds (0 hours)'' \<and>
   hoursText exactRuntime ''12abc'' \<noteq> ''NaN''"
proof -
  have p: "parseInt ''12abc'' = Some 12"
    by (simp add: parseInt_def isWhiteSpace_def isDigit_def digitValue_def Let_def)
  have t: "intToString 0 = ''0''"
    by (simp add: intToString_def natToString.simps)
  have r: "Math_round (1 / 300) = 0"
    using Math_round_div [of 12] by simp
  have h: "hoursText exactRuntime ''12abc'' = ''0''"
    by (simp add: hoursText_def p r t)
  show ?thesis
    using not_numeral_12abc by (simp add: describeTag_def tagDescriptions_def h)
qed

section \<open>The handler: which record is selected\<close>

lemma find_None_filter: "find P xs = None \<longleftrightarrow> filter P xs = []"
  by (induction xs) auto

lemma find_first: "filter P pre = [] \<Longrightarrow> P r \<Longrightarrow> find P (pre @ r # post) = Some r"
  by (induction pre) (auto split: if_splits)

lemma find_Some_split:
  "find P xs = Some r \<Longrightarrow> \<exists>pre post. xs = pre @ r # post \<and> filter P pre = [] \<and> P r"
proof (induction xs)
  case Nil
  then show ?case by simp
next
  case (Cons x xs)
  show ?case
  proof (cases "P x")
    case True
    then have "x = r" using Cons.prems by simp
    then have "x # xs = [] @ r # xs \<and> filter P [] = [] \<and> P r"
      using True by simp
    then show ?thesis by blast
  next
    case False
    then obtain pre post where "xs = pre @ r # post" "filter P pre = []" "P r"
      using Cons by auto
    then have "x # xs = (x # pre) @ r # post \<and> filter P (x # pre) = [] \<and> P r"
      using False by simp
    then show ?thesis by blast
  qed
qed

lemma startsWith_iff: "startsWith s p \<longleftrightarrow> (\<exists>post. s = p @ post)"
proof
  assume "startsWith s p"
  then have "s = p @ drop (length p) s"
    unfolding startsWith_def by (metis append_take_drop_id)
  then show "\<exists>post. s = p @ post" ..
next
  assume "\<exists>post. s = p @ post"
  then show "startsWith s p"
    unfolding startsWith_def by auto
qed

lemma isDmarc_iff: "isDmarc r \<longleftrightarrow> (\<exists>rest. toLowerCase r = ''v=dmarc1'' @ rest)"
  by (simp add: isDmarc_def startsWith_iff)

lemma isDmarc_not_Nil: "isDmarc r \<Longrightarrow> r \<noteq> []"
  by (auto simp: isDmarc_def startsWith_def toLowerCase_def)

lemma GET_Resolved:
  "d \<noteq> [] \<Longrightarrow> resolveDns (dmarcDomain d) = Resolved records \<Longrightarrow>
   GET inexact resolveDns queryTime (Some d) =
     (tryBody inexact (cleanDomain d) queryTime records, [dmarcDomain d])"
  by (simp add: GET_def)

lemma GET_Rejected:
  "d \<noteq> [] \<Longrightarrow> resolveDns (dmarcDomain d) = Rejected err \<Longrightarrow>
   GET inexact resolveDns queryTime (Some d) = (catchBody (cleanDomain d) err, [dmarcDomain d])"
  by (simp add: GET_def)

lemma tryBody_None:
  "find isDmarc (map concat records) = None \<Longrightarrow>
   tryBody inexact c queryTime records =
     \<lparr>status = 404,
      body = [(''success'', JBool False),
              (''error'', JString (''No DMARC record found for '' @ c))]\<rparr>"
  by (simp add: tryBody_def)

lemma tryBody_Some:
  "find isDmarc (map concat records) = Some r \<Longrightarrow>
   tryBody inexact c queryTime records =
     \<lparr>status = 200,
      body = [(''success'', JBool True),
              (''domain'', JString c),
              (''record'', JString r),
              (''tags'', JTags (parseDmarcRecord inexact r)),
              (''policy'', JString
                 (case policyTag (parseDmarcRecord inexact r) of
                    None \<Rightarrow> ''none''
                  | Some t \<Rightarrow> if val t = [] then ''none'' else val t)),
              (''policyDescription'', JString
                 (getPolicyDescription
                   (case policyTag (parseDmarcRecord inexact r) of
                      None \<Rightarrow> ''none''
                    | Some t \<Rightarrow> if val t = [] then ''none'' else val t))),
              (''queryTime'', JNumber queryTime)]\<rparr>"
proof -
  assume f: "find isDmarc (map concat records) = Some r"
  then have "isDmarc r"
    by (auto dest: find_Some_split)
  then have "r \<noteq> []"
    by (rule isDmarc_not_Nil)
  then show ?thesis
    using f by (simp add: tryBody_def Let_def)
qed

subsection \<open>The example resolver\<close>

lemma exampleResolver_names:
  "exampleResolver (dmarcDomain ''example.com'') =
     Resolved [[''v=spf1 -all''], [''v=DMARC1; p=quarantine; rua=mailto:d@example.com'']]"
  "exampleResolver (dmarcDomain ''https://chunks.example/path'') =
     Resolved [[''v=spf1 -all''], [''V=Dmarc1; p=rej'', ''ect; p=none''], [''v=DMARC1; p=none'']]"
  "exampleResolver (dmarcDomain ''empty-p.example'') = Resolved [[''v=DMARC1; p='']]"
  "exampleResolver (dmarcDomain ''bare-p.example'') = Resolved [[''v=DMARC1; p; p=reject'']]"
  "exampleResolver (dmarcDomain ''no-p.example'') =
     Resolved [[''v=DMARC1; rua=mailto:d@example.com'']]"
  "exampleResolver (dmarcDomain ''upper.example'') = Resolved [[''V=DMARC1; P=REJECT'']]"
  "exampleResolver (dmarcDomain ''spf-only.example'') = Resolved [[''v=spf1 -all'']]"
  "exampleResolver (dmarcDomain ''no-txt.example'') = Resolved []"
  "exampleResolver (dmarcDomain ''timeout.example'') = Rejected (ErrorObject ''request timed out'')"
  "exampleResolver (dmarcDomain ''odd.example'') = Rejected OtherValue"
  "exampleResolver (dmarcDomain ''_dmarc.missing.example'') =
     Rejected (ErrorObject ''no record found for the name'')"
  "exampleResolver (dmarcDomain ''lookalike.example'') =
     Resolved [[''google-site-verification=0123456789abcdef''], ['' v=DMARC1; p=reject''],
               [''spf v=dmarc1; p=reject'']]"
  "exampleResolver (dmarcDomain ''mixed.example'') =
     Resolved [[''google-site-verification=0123456789abcdef''], ['' v=DMARC1; p=none''],
               [''v=DMARC1; p=reject'']]"
  by (simp_all add: exampleResolver_def dmarcDomain_def cleanDomain_def stripDmarcPrefix_def
      stripScheme_def startsWith_def isLineTerminator_def)

lemma exampleResolver_clean:
  "cleanDomain ''example.com'' = ''example.com''"
  "cleanDomain ''https://chunks.example/path'' = ''chunks.example''"
  "cleanDomain ''spf-only.example'' = ''spf-only.example''"
  "cleanDomain ''no-txt.example'' = ''no-txt.example''"
  "cleanDomain ''_dmarc.missing.example'' = ''missing.example''"
  "cleanDomain ''lookalike.example'' = ''lookalike.example''"
  by (simp_all add: cleanDomain_def stripDmarcPrefix_def stripScheme_def startsWith_def
      isLineTerminator_def)

lemma isDmarc_examples:
  "\<not> isDmarc ''v=spf1 -all''"
  "isDmarc ''v=DMARC1; p=quarantine; rua=mailto:d@example.com''"
  "isDmarc ''V=Dmarc1; p=reject; p=none''"
  "isDmarc ''v=DMARC1; p=none''"
  "isDmarc ''v=DMARC1; p=''"
  "isDmarc ''v=DMARC1; p; p=reject''"
  "isDmarc ''v=DMARC1; rua=mailto:d@example.com''"
  "isDmarc ''V=DMARC1; P=REJECT''"
  "\<not> isDmarc ''google-site-verification=0123456789abcdef''"
  "\<not> isDmarc '' v=DMARC1; p=reject''"
  "\<not> isDmarc ''spf v=dmarc1; p=reject''"
  "\<not> isDmarc '' v=DMARC1; p=none''"
  "isDmarc ''v=DMARC1; p=reject''"
  by code_simp+

lemmas prefix_examples = isDmarc_examples [unfolded isDmarc_iff, simplified]

lemma GET_selects_isDmarc:
  assumes "d \<noteq> []" and "resolveDns (dmarcDomain d) = Resolved records"
  shows
    "(status (fst (GET inexact resolveDns queryTime (Some d))) = 404 \<longleftrightarrow>
        filter isDmarc (map concat records) = []) \<and>
     (filter isDmarc (map concat records) = [] \<longrightarrow>
        fst (GET inexact resolveDns queryTime (Some d)) =
          \<lparr>status = 404,
           body = [(''success'', JBool False),
                   (''error'', JString (''No DMARC record found for '' @ cleanDomain d))]\<rparr>) \<and>
     (\<forall>pre r post.
        map concat records = pre @ r # post \<and> filter isDmarc pre = [] \<and> isDmarc r \<longrightarrow>
          status (fst (GET inexact resolveDns queryTime (Some d))) = 200 \<and>
          map_of (body (fst (GET inexact resolveDns queryTime (Some d)))) ''success'' =
            Some (JBool True) \<and>
          map_of (body (fst (GET inexact resolveDns queryTime (Some d)))) ''record'' =
            Some (JString r) \<and>
          map_of (body (fst (GET inexact resolveDns queryTime (Some d)))) ''tags'' =
            Some (JTags (parseDmarcRecord inexact r)))"
proof -
  let ?resp = "fst (GET inexact resolveDns queryTime (Some d))"
  have resp: "?resp = tryBody inexact (cleanDomain d) queryTime records"
    using assms by (simp add: GET_Resolved)
  have none: "?resp =
      \<lparr>status = 404,
       body = [(''success'', JBool False),
               (''error'', JString (''No DMARC record found for '' @ cleanDomain d))]\<rparr>"
    if "filter isDmarc (map concat records) = []"
    using that unfolding resp by (simp add: tryBody_None find_None_filter)
  have some: "status ?resp = 200 \<and>
      map_of (body ?resp) ''success'' = Some (JBool True) \<and>
      map_of (body ?resp) ''record'' = Some (JString r) \<and>
      map_of (body ?resp) ''tags'' = Some (JTags (parseDmarcRecord inexact r))"
    if "map concat records = pre @ r # post" "filter isDmarc pre = []" "isDmarc r"
    for pre r post
  proof -
    have "find isDmarc (map concat records) = Some r"
      using that by (simp add: find_first)
    then show ?thesis
      unfolding resp by (simp add: tryBody_Some)
  qed
  have iff: "status ?resp = 404 \<longleftrightarrow> filter isDmarc (map concat records) = []"
  proof
    assume s: "status ?resp = 404"
    show "filter isDmarc (map concat records) = []"
    proof (cases "find isDmarc (map concat records)")
      case None
      then show ?thesis by (simp add: find_None_filter)
    next
      case (Some r)
      then have "status ?resp = 200"
        unfolding resp by (simp add: tryBody_Some)
      then show ?thesis using s by simp
    qed
  next
    assume "filter isDmarc (map concat records) = []"
    then show "status ?resp = 404"
      using none by simp
  qed
  show ?thesis
    using iff none some by blast
qed

text \<open>
  C3. When the resolver returns TXT records, the chunks of each are concatenated and
  the first text whose lower-case form starts with \<^verbatim>\<open>v=dmarc1\<close> is selected. The
  response is the 404 that names the domain exactly when no text is of that form;
  otherwise it is a success whose \<^verbatim>\<open>record\<close> is the selected text and whose
  \<^verbatim>\<open>tags\<close> are its parse.
\<close>

theorem GET_selects_first_dmarc:
  assumes "d \<noteq> []" and "resolveDns (dmarcDomain d) = Resolved records"
  shows
    "(status (fst (GET inexact resolveDns queryTime (Some d))) = 404 \<longleftrightarrow>
        \<not> (\<exists>r \<in> set (map concat records). \<exists>rest. toLowerCase r = ''v=dmarc1'' @ rest)) \<and>
     (\<not> (\<exists>r \<in> set (map concat records). \<exists>rest. toLowerCase r = ''v=dmarc1'' @ rest) \<longrightarrow>
        fst (GET inexact resolveDns queryTime (Some d)) =
          \<lparr>status = 404,
           body = [(''success'', JBool False),
                   (''error'', JString (''No DMARC record found for '' @ cleanDomain d))]\<rparr>) \<and>
     (\<forall>pre r post.
        map concat records = pre @ r # post \<and>
        (\<forall>x \<in> set pre. \<not> (\<exists>rest. toLowerCase x = ''v=dmarc1'' @ rest)) \<and>
        (\<exists>rest. toLowerCase r = ''v=dmarc1'' @ rest) \<longrightarrow>
          status (fst (GET inexact resolveDns queryTime (Some d))) = 200 \<and>
          map_of (body (fst (GET inexact resolveDns queryTime (Some d)))) ''success'' =
            Some (JBool True) \<and>
          map_of (body (fst (GET inexact resolveDns queryTime (Some d)))) ''record'' =
            Some (JString r) \<and>
          map_of (body (fst (GET inexact resolveDns queryTime (Some d)))) ''tags'' =
            Some (JTags (parseDmarcRecord inexact r)))"
  using GET_selects_isDmarc [of d resolveDns records inexact queryTime, OF assms]
  by (simp add: filter_empty_conv isDmarc_iff)

theorem GET_selects_first_dmarc_witness:
  "status (fst (GET exactRuntime exampleResolver 12 (Some ''example.com''))) = 200 \<and>
   map_of (body (fst (GET exactRuntime exampleResolver 12 (Some ''example.com'')))) ''record'' =
     Some (JString ''v=DMARC1; p=quarantine; rua=mailto:d@example.com'') \<and>
   map_of (body (fst (GET exactRuntime exampleResolver 12 (Some ''example.com'')))) ''tags'' =
     Some (JTags (parseDmarcRecord exactRuntime
       ''v=DMARC1; p=quarantine; rua=mailto:d@example.com'')) \<and>
   map_of (body (fst (GET exactRuntime exampleResolver 12
       (Some ''https://chunks.example/path'')))) ''record'' =
     Some (JString ''V=Dmarc1; p=reject; p=none'') \<and>
   map_of (body (fst (GET exactRuntime exampleResolver 12 (Some ''mixed.example'')))) ''record'' =
     Some (JString ''v=DMARC1; p=reject'') \<and>
   fst (GET exactRuntime exampleResolver 12 (Some ''lookalike.example'')) =
     \<lparr>status = 404,
      body = [(''success'', JBool False),
              (''error'', JString ''No DMARC record found for lookalike.example'')]\<rparr> \<and>
   fst (GET exactRuntime exampleResolver 12 (Some ''spf-only.example'')) =
     \<lparr>status = 404,
      body = [(''success'', JBool False),
              (''error'', JString ''No DMARC record found for spf-only.example'')]\<rparr> \<and>
   fst (GET exactRuntime exampleResolver 12 (Some ''no-txt.example'')) =
     \<lparr>status = 404,
      body = [(''success'', JBool False),
              (''error'', JString ''No DMARC record found for no-txt.example'')]\<rparr>"
proof -
  have ne: "''example.com'' \<noteq> []" "''https://chunks.example/path'' \<noteq> []"
    "''spf-only.example'' \<noteq> []" "''no-txt.example'' \<noteq> []"
    "''lookalike.example'' \<noteq> []" "''mixed.example'' \<noteq> []"
    by simp_all
  have a: "status (fst (GET exactRuntime exampleResolver 12 (Some ''example.com''))) = 200 \<and>
     map_of (body (fst (GET exactRuntime exampleResolver 12 (Some ''example.com'')))) ''record'' =
       Some (JString ''v=DMARC1; p=quarantine; rua=mailto:d@example.com'') \<and>
     map_of (body (fst (GET exactRuntime exampleResolver 12 (Some ''example.com'')))) ''tags'' =
       Some (JTags (parseDmarcRecord exactRuntime
         ''v=DMARC1; p=quarantine; rua=mailto:d@example.com''))"
    using GET_selects_first_dmarc [of "''example.com''" exampleResolver _ exactRuntime 12,
        OF ne(1) exampleResolver_names(1), THEN conjunct2, THEN conjunct2, THEN spec,
        THEN spec, THEN spec,
        of "[''v=spf1 -all'']" "''v=DMARC1; p=quarantine; rua=mailto:d@example.com''" "[]"]
    by (simp add: prefix_examples)
  have b: "map_of (body (fst (GET exactRuntime exampleResolver 12
       (Some ''https://chunks.example/path'')))) ''record'' =
     Some (JString ''V=Dmarc1; p=reject; p=none'')"
    using GET_selects_first_dmarc [of "''https://chunks.example/path''" exampleResolver _
        exactRuntime 12,
        OF ne(2) exampleResolver_names(2), THEN conjunct2, THEN conjunct2, THEN spec,
        THEN spec, THEN spec,
        of "[''v=spf1 -all'']" "''V=Dmarc1; p=reject; p=none''" "[''v=DMARC1; p=none'']"]
    by (simp add: prefix_examples)
  have c: "fst (GET exactRuntime exampleResolver 12 (Some ''spf-only.example'')) =
     \<lparr>status = 404,
      body = [(''success'', JBool False),
              (''error'', JString ''No DMARC record found for spf-only.example'')]\<rparr>"
    using GET_selects_first_dmarc [of "''spf-only.example''" exampleResolver _ exactRuntime 12,
        OF ne(3) exampleResolver_names(7)]
    by (simp add: prefix_examples exampleResolver_clean)
  have d: "fst (GET exactRuntime exampleResolver 12 (Some ''no-txt.example'')) =
     \<lparr>status = 404,
      body = [(''success'', JBool False),
              (''error'', JString ''No DMARC record found for no-txt.example'')]\<rparr>"
    using GET_selects_first_dmarc [of "''no-txt.example''" exampleResolver _ exactRuntime 12,
        OF ne(4) exampleResolver_names(8)]
    by (simp add: exampleResolver_clean)
  have e: "fst (GET exactRuntime exampleResolver 12 (Some ''lookalike.example'')) =
     \<lparr>status = 404,
      body = [(''success'', JBool False),
              (''error'', JString ''No DMARC record found for lookalike.example'')]\<rparr>"
    using GET_selects_first_dmarc [of "''lookalike.example''" exampleResolver _ exactRuntime 12,
        OF ne(5) exampleResolver_names(12)]
    by (simp add: prefix_examples exampleResolver_clean)
  have f: "map_of (body (fst (GET exactRuntime exampleResolver 12 (Some ''mixed.example''))))
       ''record'' = Some (JString ''v=DMARC1; p=reject'')"
    using GET_selects_first_dmarc [of "''mixed.example''" exampleResolver _ exactRuntime 12,
        OF ne(6) exampleResolver_names(13), THEN conjunct2, THEN conjunct2, THEN spec,
        THEN spec, THEN spec,
        of "[''google-site-verification=0123456789abcdef'', '' v=DMARC1; p=none'']"
          "''v=DMARC1; p=reject''" "[]"]
    by (simp add: prefix_examples)
  show ?thesis
    using a b c d e f by simp
qed

section \<open>The handler: the policy\<close>

lemma policyTag_None: "policyTag tags = None \<longleftrightarrow> ''p'' \<notin> set (map tag tags)"
  by (auto simp: policyTag_def find_None_iff image_iff)

lemma policyTag_first:
  "tags = pre @ t # post \<Longrightarrow> ''p'' \<notin> set (map tag pre) \<Longrightarrow> tag t = ''p'' \<Longrightarrow>
   policyTag tags = Some t"
proof -
  assume tags: "tags = pre @ t # post" and pre: "''p'' \<notin> set (map tag pre)" and t: "tag t = ''p''"
  have "filter (\<lambda>t. tag t = ''p'') pre = []"
    using pre by (auto simp: filter_empty_conv image_iff)
  then show ?thesis
    unfolding policyTag_def tags using t by (simp add: find_first)
qed

lemma GET_policy:
  assumes "d \<noteq> []" and "resolveDns (dmarcDomain d) = Resolved records"
    and "find isDmarc (map concat records) = Some r"
  shows "map_of (body (fst (GET inexact resolveDns queryTime (Some d)))) ''policy'' =
           Some (JString (case policyTag (parseDmarcRecord inexact r) of
                            None \<Rightarrow> ''none''
                          | Some t \<Rightarrow> if val t = [] then ''none'' else val t))"
    and "map_of (body (fst (GET inexact resolveDns queryTime (Some d)))) ''policyDescription'' =
           Some (JString (getPolicyDescription
                  (case policyTag (parseDmarcRecord inexact r) of
                     None \<Rightarrow> ''none''
                   | Some t \<Rightarrow> if val t = [] then ''none'' else val t)))"
  using assms by (simp_all add: GET_Resolved tryBody_Some)

lemma example_parses:
  "parseDmarcRecord exactRuntime ''v=DMARC1; p=quarantine; rua=mailto:d@example.com'' =
     [\<lparr>tag = ''v'', val = ''DMARC1'', description = Str ''DMARC version: DMARC1''\<rparr>,
      \<lparr>tag = ''p'', val = ''quarantine'',
       description = Str ''Failing emails should be treated as suspicious (e.g., moved to spam)''\<rparr>,
      \<lparr>tag = ''rua'', val = ''mailto:d@example.com'',
       description = Str ''Aggregate reports sent to: mailto:d@example.com''\<rparr>]"
  "parseDmarcRecord exactRuntime ''V=Dmarc1; p=reject; p=none'' =
     [\<lparr>tag = ''v'', val = ''Dmarc1'', description = Str ''DMARC version: Dmarc1''\<rparr>,
      \<lparr>tag = ''p'', val = ''reject'',
       description = Str ''Failing emails should be rejected outright''\<rparr>,
      \<lparr>tag = ''p'', val = ''none'',
       description = Str ''No action taken on failing emails (monitoring only)''\<rparr>]"
  "parseDmarcRecord exactRuntime ''v=DMARC1; p='' =
     [\<lparr>tag = ''v'', val = ''DMARC1'', description = Str ''DMARC version: DMARC1''\<rparr>,
      \<lparr>tag = ''p'', val = [], description = Str ''Policy: ''\<rparr>]"
  "parseDmarcRecord exactRuntime ''v=DMARC1; p; p=reject'' =
     [\<lparr>tag = ''v'', val = ''DMARC1'', description = Str ''DMARC version: DMARC1''\<rparr>,
      \<lparr>tag = ''p'', val = [], description = Str ''Policy: ''\<rparr>,
      \<lparr>tag = ''p'', val = ''reject'',
       description = Str ''Failing emails should be rejected outright''\<rparr>]"
  "parseDmarcRecord exactRuntime ''v=DMARC1; rua=mailto:d@example.com'' =
     [\<lparr>tag = ''v'', val = ''DMARC1'', description = Str ''DMARC version: DMARC1''\<rparr>,
      \<lparr>tag = ''rua'', val = ''mailto:d@example.com'',
       description = Str ''Aggregate reports sent to: mailto:d@example.com''\<rparr>]"
  "parseDmarcRecord exactRuntime ''V=DMARC1; P=REJECT'' =
     [\<lparr>tag = ''v'', val = ''DMARC1'', description = Str ''DMARC version: DMARC1''\<rparr>,
      \<lparr>tag = ''p'', val = ''REJECT'', description = Str ''Policy: REJECT''\<rparr>]"
  by code_simp+

lemma example_finds:
  "find isDmarc (map concat
     [[''v=spf1 -all''], [''v=DMARC1; p=quarantine; rua=mailto:d@example.com'']]) =
     Some ''v=DMARC1; p=quarantine; rua=mailto:d@example.com''"
  "find isDmarc (map concat
     [[''v=spf1 -all''], [''V=Dmarc1; p=rej'', ''ect; p=none''], [''v=DMARC1; p=none'']]) =
     Some ''V=Dmarc1; p=reject; p=none''"
  "find isDmarc (map concat [[''v=DMARC1; p='']]) = Some ''v=DMARC1; p=''"
  "find isDmarc (map concat [[''v=DMARC1; p; p=reject'']]) = Some ''v=DMARC1; p; p=reject''"
  "find isDmarc (map concat [[''v=DMARC1; rua=mailto:d@example.com'']]) =
     Some ''v=DMARC1; rua=mailto:d@example.com''"
  "find isDmarc (map concat [[''V=DMARC1; P=REJECT'']]) = Some ''V=DMARC1; P=REJECT''"
  by (simp_all add: isDmarc_examples)

lemma example_names_not_Nil:
  "''example.com'' \<noteq> []" "''https://chunks.example/path'' \<noteq> []"
  "''empty-p.example'' \<noteq> []" "''bare-p.example'' \<noteq> []" "''no-p.example'' \<noteq> []"
  "''upper.example'' \<noteq> []" "''timeout.example'' \<noteq> []" "''odd.example'' \<noteq> []"
  "''_dmarc.missing.example'' \<noteq> []"
  by simp_all

lemma parsePart_p_segment:
  "tag (parsePart inexact ''p'') = ''p''" "val (parsePart inexact ''p'') = []"
  "tag (parsePart inexact (''p='' @ v)) = ''p''" "val (parsePart inexact (''p='' @ v)) = trim v"
  "tag (parsePart inexact (''P='' @ v)) = ''p''" "val (parsePart inexact (''P='' @ v)) = trim v"
proof -
  have t: "toLowerCase (trim ''p'') = ''p''" "toLowerCase (trim ''P'') = ''p''"
    by code_simp+
  show "tag (parsePart inexact ''p'') = ''p''" "val (parsePart inexact ''p'') = []"
    "tag (parsePart inexact (''p='' @ v)) = ''p''" "val (parsePart inexact (''p='' @ v)) = trim v"
    "tag (parsePart inexact (''P='' @ v)) = ''p''" "val (parsePart inexact (''P='' @ v)) = trim v"
    by (simp_all add: tag_parsePart val_parsePart t trim_Nil)
qed

text \<open>
  C4, as amended. For every selected record, the \<^verbatim>\<open>policy\<close> of the response is the
  value of the first \<^verbatim>\<open>p\<close> tag of the parsed sequence when that value is not empty,
  and \<^verbatim>\<open>none\<close> when the sequence has no \<^verbatim>\<open>p\<close> tag or the value of the first is
  empty; in the absent case \<^verbatim>\<open>policyDescription\<close> is the monitoring-only sentence.
\<close>

theorem GET_policy_default:
  assumes "d \<noteq> []" and "resolveDns (dmarcDomain d) = Resolved records"
    and "find isDmarc (map concat records) = Some r"
  shows
    "(''p'' \<notin> set (map tag (parseDmarcRecord inexact r)) \<longrightarrow>
        map_of (body (fst (GET inexact resolveDns queryTime (Some d)))) ''policy'' =
          Some (JString ''none'') \<and>
        map_of (body (fst (GET inexact resolveDns queryTime (Some d)))) ''policyDescription'' =
          Some (JString ''This domain has a monitoring-only DMARC policy. No action is taken on failing emails, but reports may be collected. This provides no protection against spoofing.'')) \<and>
     (\<forall>pre t post.
        parseDmarcRecord inexact r = pre @ t # post \<and> ''p'' \<notin> set (map tag pre) \<and>
        tag t = ''p'' \<and> val t \<noteq> [] \<longrightarrow>
          map_of (body (fst (GET inexact resolveDns queryTime (Some d)))) ''policy'' =
            Some (JString (val t)) \<and>
          map_of (body (fst (GET inexact resolveDns queryTime (Some d)))) ''policyDescription'' =
            Some (JString (getPolicyDescription (val t)))) \<and>
     (\<forall>pre t post.
        parseDmarcRecord inexact r = pre @ t # post \<and> ''p'' \<notin> set (map tag pre) \<and>
        tag t = ''p'' \<and> val t = [] \<longrightarrow>
          map_of (body (fst (GET inexact resolveDns queryTime (Some d)))) ''policy'' =
            Some (JString ''none''))"
proof -
  note pol = GET_policy [of d resolveDns records r inexact queryTime, OF assms]
  have absent: "policyTag (parseDmarcRecord inexact r) = None"
    if "''p'' \<notin> set (map tag (parseDmarcRecord inexact r))"
    using that policyTag_None by blast
  have first: "policyTag (parseDmarcRecord inexact r) = Some t"
    if "parseDmarcRecord inexact r = pre @ t # post" "''p'' \<notin> set (map tag pre)" "tag t = ''p''"
    for pre t post
    using that by (rule policyTag_first)
  show ?thesis
  proof (intro conjI impI allI)
    assume "''p'' \<notin> set (map tag (parseDmarcRecord inexact r))"
    then have n: "policyTag (parseDmarcRecord inexact r) = None" by (rule absent)
    show "map_of (body (fst (GET inexact resolveDns queryTime (Some d)))) ''policy'' =
          Some (JString ''none'')"
      unfolding pol n by simp
    show "map_of (body (fst (GET inexact resolveDns queryTime (Some d)))) ''policyDescription'' =
          Some (JString ''This domain has a monitoring-only DMARC policy. No action is taken on failing emails, but reports may be collected. This provides no protection against spoofing.'')"
      unfolding pol n by (simp add: getPolicyDescription_def)
  next
    fix pre t post
    assume h: "parseDmarcRecord inexact r = pre @ t # post \<and> ''p'' \<notin> set (map tag pre) \<and>
        tag t = ''p'' \<and> val t \<noteq> []"
    then have s: "policyTag (parseDmarcRecord inexact r) = Some t"
      using first by blast
    show "map_of (body (fst (GET inexact resolveDns queryTime (Some d)))) ''policy'' =
            Some (JString (val t))"
      unfolding pol s using h by simp
    show "map_of (body (fst (GET inexact resolveDns queryTime (Some d)))) ''policyDescription'' =
            Some (JString (getPolicyDescription (val t)))"
      unfolding pol s using h by simp
  next
    fix pre t post
    assume h: "parseDmarcRecord inexact r = pre @ t # post \<and> ''p'' \<notin> set (map tag pre) \<and>
        tag t = ''p'' \<and> val t = []"
    then have s: "policyTag (parseDmarcRecord inexact r) = Some t"
      using first by blast
    show "map_of (body (fst (GET inexact resolveDns queryTime (Some d)))) ''policy'' =
            Some (JString ''none'')"
      unfolding pol s using h by simp
  qed
qed

theorem GET_policy_default_witness:
  "map_of (body (fst (GET exactRuntime exampleResolver 12 (Some ''no-p.example'')))) ''policy'' =
     Some (JString ''none'') \<and>
   map_of (body (fst (GET exactRuntime exampleResolver 12 (Some ''no-p.example''))))
       ''policyDescription'' =
     Some (JString ''This domain has a monitoring-only DMARC policy. No action is taken on failing emails, but reports may be collected. This provides no protection against spoofing.'') \<and>
   map_of (body (fst (GET exactRuntime exampleResolver 12 (Some ''example.com'')))) ''policy'' =
     Some (JString ''quarantine'') \<and>
   map_of (body (fst (GET exactRuntime exampleResolver 12 (Some ''example.com''))))
       ''policyDescription'' =
     Some (JString ''This domain has a moderate DMARC policy. Emails that fail DMARC authentication may be treated as suspicious and placed in spam/junk folders.'') \<and>
   map_of (body (fst (GET exactRuntime exampleResolver 12 (Some ''bare-p.example'')))) ''policy'' =
     Some (JString ''none'')"
proof -
  have a: "map_of (body (fst (GET exactRuntime exampleResolver 12 (Some ''no-p.example''))))
        ''policy'' = Some (JString ''none'') \<and>
      map_of (body (fst (GET exactRuntime exampleResolver 12 (Some ''no-p.example''))))
        ''policyDescription'' =
      Some (JString ''This domain has a monitoring-only DMARC policy. No action is taken on failing emails, but reports may be collected. This provides no protection against spoofing.'')"
    using GET_policy_default [of "''no-p.example''" exampleResolver _ _ exactRuntime 12,
        OF example_names_not_Nil(5) exampleResolver_names(5) example_finds(5),
        THEN conjunct1]
    by (simp add: example_parses)
  have b: "map_of (body (fst (GET exactRuntime exampleResolver 12 (Some ''example.com''))))
        ''policy'' = Some (JString ''quarantine'') \<and>
      map_of (body (fst (GET exactRuntime exampleResolver 12 (Some ''example.com''))))
        ''policyDescription'' =
      Some (JString ''This domain has a moderate DMARC policy. Emails that fail DMARC authentication may be treated as suspicious and placed in spam/junk folders.'')"
    using GET_policy_default [of "''example.com''" exampleResolver _ _ exactRuntime 12,
        OF example_names_not_Nil(1) exampleResolver_names(1) example_finds(1),
        THEN conjunct2, THEN conjunct1, rule_format,
        of "[\<lparr>tag = ''v'', val = ''DMARC1'', description = Str ''DMARC version: DMARC1''\<rparr>]"
          "\<lparr>tag = ''p'', val = ''quarantine'',
            description = Str ''Failing emails should be treated as suspicious (e.g., moved to spam)''\<rparr>"
          "[\<lparr>tag = ''rua'', val = ''mailto:d@example.com'',
             description = Str ''Aggregate reports sent to: mailto:d@example.com''\<rparr>]"]
    by (simp add: example_parses getPolicyDescription_def)
  have c: "map_of (body (fst (GET exactRuntime exampleResolver 12 (Some ''bare-p.example''))))
        ''policy'' = Some (JString ''none'')"
    using GET_policy_default [of "''bare-p.example''" exampleResolver _ _ exactRuntime 12,
        OF example_names_not_Nil(4) exampleResolver_names(4) example_finds(4),
        THEN conjunct2, THEN conjunct2, rule_format,
        of "[\<lparr>tag = ''v'', val = ''DMARC1'', description = Str ''DMARC version: DMARC1''\<rparr>]"
          "\<lparr>tag = ''p'', val = [], description = Str ''Policy: ''\<rparr>"
          "[\<lparr>tag = ''p'', val = ''reject'',
             description = Str ''Failing emails should be rejected outright''\<rparr>]"]
    by (simp add: example_parses)
  show ?thesis
    using a b c by simp
qed

text \<open>
  The claim as first stated, that the policy is the value of the \<^verbatim>\<open>p\<close> tag whenever
  one is present, fails for the record \<^verbatim>\<open>v=DMARC1; p=\<close>: its \<^verbatim>\<open>p\<close> tag is present
  with the empty value, and the policy is \<^verbatim>\<open>none\<close>.
\<close>

theorem policy_of_empty_p_counterexample:
  "map_of (body (fst (GET exactRuntime exampleResolver 12 (Some ''empty-p.example'')))) ''tags'' =
     Some (JTags
       [\<lparr>tag = ''v'', val = ''DMARC1'', description = Str ''DMARC version: DMARC1''\<rparr>,
        \<lparr>tag = ''p'', val = [], description = Str ''Policy: ''\<rparr>]) \<and>
   map_of (body (fst (GET exactRuntime exampleResolver 12 (Some ''empty-p.example'')))) ''policy'' =
     Some (JString ''none'') \<and>
   map_of (body (fst (GET exactRuntime exampleResolver 12 (Some ''empty-p.example'')))) ''policy'' \<noteq>
     Some (JString (val \<lparr>tag = ''p'', val = [], description = Str ''Policy: ''\<rparr>))"
proof -
  have "fst (GET exactRuntime exampleResolver 12 (Some ''empty-p.example'')) =
      tryBody exactRuntime (cleanDomain ''empty-p.example'') 12 [[''v=DMARC1; p='']]"
    by (simp add: GET_Resolved exampleResolver_names)
  then show ?thesis
    by (simp add: tryBody_Some [OF example_finds(3)] example_parses policyTag_def)
qed

text \<open>
  C9. When the first \<^verbatim>\<open>p\<close> tag has the empty value, as the segments \<^verbatim>\<open>p\<close> and
  \<^verbatim>\<open>p=\<close> give it, the policy is \<^verbatim>\<open>none\<close> with the summary of \<^verbatim>\<open>none\<close>, as when
  the tag is absent; and whatever tags follow the first \<^verbatim>\<open>p\<close> tag, its value alone
  decides the policy.
\<close>

theorem GET_policy_first_p:
  assumes "d \<noteq> []" and "resolveDns (dmarcDomain d) = Resolved records"
    and "find isDmarc (map concat records) = Some r"
  shows
    "(\<forall>pre t post.
        parseDmarcRecord inexact r = pre @ t # post \<and> ''p'' \<notin> set (map tag pre) \<and>
        tag t = ''p'' \<longrightarrow>
          map_of (body (fst (GET inexact resolveDns queryTime (Some d)))) ''policy'' =
            Some (JString (if val t = [] then ''none'' else val t))) \<and>
     (\<forall>pre t post.
        parseDmarcRecord inexact r = pre @ t # post \<and> ''p'' \<notin> set (map tag pre) \<and>
        tag t = ''p'' \<and> val t = [] \<longrightarrow>
          map_of (body (fst (GET inexact resolveDns queryTime (Some d)))) ''policy'' =
            Some (JString ''none'') \<and>
          map_of (body (fst (GET inexact resolveDns queryTime (Some d)))) ''policyDescription'' =
            Some (JString (getPolicyDescription ''none''))) \<and>
     tag (parsePart inexact ''p'') = ''p'' \<and> val (parsePart inexact ''p'') = [] \<and>
     tag (parsePart inexact ''p='') = ''p'' \<and> val (parsePart inexact ''p='') = []"
proof -
  note pol = GET_policy [of d resolveDns records r inexact queryTime, OF assms]
  have first: "policyTag (parseDmarcRecord inexact r) = Some t"
    if "parseDmarcRecord inexact r = pre @ t # post \<and> ''p'' \<notin> set (map tag pre) \<and> tag t = ''p''"
    for pre t post
    using that policyTag_first by blast
  have one: "map_of (body (fst (GET inexact resolveDns queryTime (Some d)))) ''policy'' =
            Some (JString (if val t = [] then ''none'' else val t))"
    if "parseDmarcRecord inexact r = pre @ t # post \<and> ''p'' \<notin> set (map tag pre) \<and> tag t = ''p''"
    for pre t post
    unfolding pol first [OF that] by simp
  have two: "map_of (body (fst (GET inexact resolveDns queryTime (Some d)))) ''policy'' =
            Some (JString ''none'') \<and>
          map_of (body (fst (GET inexact resolveDns queryTime (Some d)))) ''policyDescription'' =
            Some (JString (getPolicyDescription ''none''))"
    if "parseDmarcRecord inexact r = pre @ t # post \<and> ''p'' \<notin> set (map tag pre) \<and> tag t = ''p''"
      and "val t = []"
    for pre t post
    unfolding pol first [OF that(1)] using that(2) by simp
  have three: "tag (parsePart inexact ''p='') = ''p''" "val (parsePart inexact ''p='') = []"
    using parsePart_p_segment(3,4) [of inexact "[]"] by (simp_all add: trim_Nil)
  show ?thesis
    using one two three parsePart_p_segment(1,2) [of inexact] by blast
qed

theorem GET_policy_first_p_witness:
  "map_of (body (fst (GET exactRuntime exampleResolver 12 (Some ''empty-p.example'')))) ''policy'' =
     Some (JString ''none'') \<and>
   map_of (body (fst (GET exactRuntime exampleResolver 12 (Some ''bare-p.example'')))) ''policy'' =
     Some (JString ''none'') \<and>
   map_of (body (fst (GET exactRuntime exampleResolver 12 (Some ''bare-p.example''))))
       ''policyDescription'' =
     Some (JString ''This domain has a monitoring-only DMARC policy. No action is taken on failing emails, but reports may be collected. This provides no protection against spoofing.'') \<and>
   map_of (body (fst (GET exactRuntime exampleResolver 12
       (Some ''https://chunks.example/path'')))) ''policy'' =
     Some (JString ''reject'')"
proof -
  have a: "map_of (body (fst (GET exactRuntime exampleResolver 12 (Some ''empty-p.example''))))
      ''policy'' = Some (JString ''none'')"
    using GET_policy_first_p [of "''empty-p.example''" exampleResolver _ _ exactRuntime 12,
        OF example_names_not_Nil(3) exampleResolver_names(3) example_finds(3),
        THEN conjunct1, rule_format,
        of "[\<lparr>tag = ''v'', val = ''DMARC1'', description = Str ''DMARC version: DMARC1''\<rparr>]"
          "\<lparr>tag = ''p'', val = [], description = Str ''Policy: ''\<rparr>" "[]"]
    by (simp add: example_parses)
  have b: "map_of (body (fst (GET exactRuntime exampleResolver 12 (Some ''bare-p.example''))))
        ''policy'' = Some (JString ''none'') \<and>
      map_of (body (fst (GET exactRuntime exampleResolver 12 (Some ''bare-p.example''))))
        ''policyDescription'' = Some (JString (getPolicyDescription ''none''))"
    using GET_policy_first_p [of "''bare-p.example''" exampleResolver _ _ exactRuntime 12,
        OF example_names_not_Nil(4) exampleResolver_names(4) example_finds(4),
        THEN conjunct2, THEN conjunct1, rule_format,
        of "[\<lparr>tag = ''v'', val = ''DMARC1'', description = Str ''DMARC version: DMARC1''\<rparr>]"
          "\<lparr>tag = ''p'', val = [], description = Str ''Policy: ''\<rparr>"
          "[\<lparr>tag = ''p'', val = ''reject'',
             description = Str ''Failing emails should be rejected outright''\<rparr>]"]
    by (simp add: example_parses)
  have c: "map_of (body (fst (GET exactRuntime exampleResolver 12
       (Some ''https://chunks.example/path'')))) ''policy'' = Some (JString ''reject'')"
    using GET_policy_first_p [of "''https://chunks.example/path''" exampleResolver _ _
        exactRuntime 12,
        OF example_names_not_Nil(2) exampleResolver_names(2) example_finds(2),
        THEN conjunct1, rule_format,
        of "[\<lparr>tag = ''v'', val = ''Dmarc1'', description = Str ''DMARC version: Dmarc1''\<rparr>]"
          "\<lparr>tag = ''p'', val = ''reject'',
            description = Str ''Failing emails should be rejected outright''\<rparr>"
          "[\<lparr>tag = ''p'', val = ''none'',
             description = Str ''No action taken on failing emails (monitoring only)''\<rparr>]"]
    by (simp add: example_parses)
  show ?thesis
    using a b c by (simp add: getPolicyDescription_def)
qed

text \<open>
  C10. A value is the text after the first \<^verbatim>\<open>=\<close> of its segment, trimmed and
  otherwise unchanged, and the summary compares exactly: a record whose first
  \<^verbatim>\<open>p\<close> tag has the value \<^verbatim>\<open>REJECT\<close> gets the policy \<^verbatim>\<open>REJECT\<close> and the summary
  \<^verbatim>\<open>Unknown policy type.\<close>, although the tag name is lowercased and the record is
  selected without regard to case.
\<close>

theorem policy_case_sensitive:
  assumes "d \<noteq> []" and "resolveDns (dmarcDomain d) = Resolved records"
    and "find isDmarc (map concat records) = Some r"
  shows
    "(\<forall>pre t post.
        parseDmarcRecord inexact r = pre @ t # post \<and> ''p'' \<notin> set (map tag pre) \<and>
        tag t = ''p'' \<and> val t = ''REJECT'' \<longrightarrow>
          map_of (body (fst (GET inexact resolveDns queryTime (Some d)))) ''policy'' =
            Some (JString ''REJECT'') \<and>
          map_of (body (fst (GET inexact resolveDns queryTime (Some d)))) ''policyDescription'' =
            Some (JString ''Unknown policy type.'')) \<and>
     val (parsePart inexact ''p=REJECT'') = ''REJECT'' \<and>
     tag (parsePart inexact ''P=REJECT'') = ''p'' \<and>
     val (parsePart inexact (''p='' @ v)) = trim v \<and>
     val (parsePart inexact part) = trim (drop 1 (dropWhile (\<lambda>c. c \<noteq> CHR ''='') part)) \<and>
     getPolicyDescription ''REJECT'' = ''Unknown policy type.'' \<and>
     getPolicyDescription ''reject'' \<noteq> ''Unknown policy type.'' \<and>
     isDmarc ''v=DMARC1; p=REJECT'' \<and> isDmarc ''V=dmarc1; P=REJECT''"
proof -
  note pol = GET_policy [of d resolveDns records r inexact queryTime, OF assms]
  have one: "map_of (body (fst (GET inexact resolveDns queryTime (Some d)))) ''policy'' =
            Some (JString ''REJECT'') \<and>
          map_of (body (fst (GET inexact resolveDns queryTime (Some d)))) ''policyDescription'' =
            Some (JString ''Unknown policy type.'')"
    if "parseDmarcRecord inexact r = pre @ t # post \<and> ''p'' \<notin> set (map tag pre) \<and>
        tag t = ''p'' \<and> val t = ''REJECT''"
    for pre t post
  proof -
    have "policyTag (parseDmarcRecord inexact r) = Some t"
      using that policyTag_first by blast
    then show ?thesis
      unfolding pol using that by (simp add: getPolicyDescription_def)
  qed
  have tr: "trim ''REJECT'' = ''REJECT''"
    by code_simp
  have two: "val (parsePart inexact ''p=REJECT'') = ''REJECT''"
    "tag (parsePart inexact ''P=REJECT'') = ''p''"
    using parsePart_p_segment(4,5) [of inexact "''REJECT''"] by (simp_all add: tr)
  have three: "getPolicyDescription ''REJECT'' = ''Unknown policy type.''"
    "getPolicyDescription ''reject'' \<noteq> ''Unknown policy type.''"
    by (simp_all add: getPolicyDescription_def)
  have four: "isDmarc ''v=DMARC1; p=REJECT''" "isDmarc ''V=dmarc1; P=REJECT''"
    by code_simp+
  show ?thesis
    using one two three four parsePart_p_segment(4) [of inexact v]
      val_parsePart [of inexact part]
    by blast
qed

theorem policy_case_sensitive_witness:
  "fst (GET exactRuntime exampleResolver 12 (Some ''upper.example'')) =
     \<lparr>status = 200,
      body = [(''success'', JBool True),
              (''domain'', JString ''upper.example''),
              (''record'', JString ''V=DMARC1; P=REJECT''),
              (''tags'', JTags
                 [\<lparr>tag = ''v'', val = ''DMARC1'', description = Str ''DMARC version: DMARC1''\<rparr>,
                  \<lparr>tag = ''p'', val = ''REJECT'', description = Str ''Policy: REJECT''\<rparr>]),
              (''policy'', JString ''REJECT''),
              (''policyDescription'', JString ''Unknown policy type.''),
              (''queryTime'', JNumber 12)]\<rparr>"
proof -
  have cd: "cleanDomain ''upper.example'' = ''upper.example''"
    by (simp add: cleanDomain_def stripDmarcPrefix_def stripScheme_def startsWith_def
        isLineTerminator_def)
  have resp: "fst (GET exactRuntime exampleResolver 12 (Some ''upper.example'')) =
      tryBody exactRuntime ''upper.example'' 12 [[''V=DMARC1; P=REJECT'']]"
    using cd by (simp add: GET_Resolved exampleResolver_names)
  have pol: "map_of (body (fst (GET exactRuntime exampleResolver 12 (Some ''upper.example''))))
      ''policy'' = Some (JString ''REJECT'') \<and>
    map_of (body (fst (GET exactRuntime exampleResolver 12 (Some ''upper.example''))))
      ''policyDescription'' = Some (JString ''Unknown policy type.'')"
    using policy_case_sensitive [of "''upper.example''" exampleResolver _ _ exactRuntime 12,
        OF example_names_not_Nil(6) exampleResolver_names(6) example_finds(6),
        THEN conjunct1, rule_format,
        of "[\<lparr>tag = ''v'', val = ''DMARC1'', description = Str ''DMARC version: DMARC1''\<rparr>]"
          "\<lparr>tag = ''p'', val = ''REJECT'', description = Str ''Policy: REJECT''\<rparr>" "[]"]
    by (simp add: example_parses)
  show ?thesis
    using pol unfolding resp
    by (simp add: tryBody_Some [OF example_finds(6)] example_parses policyTag_def
        getPolicyDescription_def)
qed

section \<open>The handler: errors\<close>

text \<open>
  \<open>includesStr\<close> is the substring test, and every response has one of two shapes.
\<close>

lemma includesStr_iff: "includesStr s p \<longleftrightarrow> (\<exists>pre post. s = pre @ p @ post)"
proof (induction s)
  case Nil
  then show ?case by auto
next
  case (Cons c cs)
  show ?case
  proof
    assume "includesStr (c # cs) p"
    then consider "startsWith (c # cs) p" | "includesStr cs p"
      by auto
    then show "\<exists>pre post. c # cs = pre @ p @ post"
    proof cases
      case 1
      then obtain post where "c # cs = [] @ p @ post"
        by (auto simp: startsWith_iff)
      then show ?thesis by blast
    next
      case 2
      then obtain pre post where "cs = pre @ p @ post"
        using Cons by blast
      then have "c # cs = (c # pre) @ p @ post"
        by simp
      then show ?thesis by blast
    qed
  next
    assume "\<exists>pre post. c # cs = pre @ p @ post"
    then obtain pre post where e: "c # cs = pre @ p @ post"
      by blast
    show "includesStr (c # cs) p"
    proof (cases pre)
      case Nil
      then have "startsWith (c # cs) p"
        using e by (auto simp: startsWith_iff)
      then show ?thesis by simp
    next
      case (Cons x pre')
      then have "cs = pre' @ p @ post"
        using e by simp
      then have "includesStr cs p"
        using Cons.IH by blast
      then show ?thesis by simp
    qed
  qed
qed

lemma GET_shape:
  "(status (fst (GET inexact resolveDns queryTime domain)) = 200 \<and>
    map fst (body (fst (GET inexact resolveDns queryTime domain))) =
      [''success'', ''domain'', ''record'', ''tags'', ''policy'', ''policyDescription'',
       ''queryTime''] \<and>
    map_of (body (fst (GET inexact resolveDns queryTime domain))) ''success'' =
      Some (JBool True)) \<or>
   (status (fst (GET inexact resolveDns queryTime domain)) \<in> {400, 404, 500} \<and>
    map fst (body (fst (GET inexact resolveDns queryTime domain))) = [''success'', ''error''] \<and>
    map_of (body (fst (GET inexact resolveDns queryTime domain))) ''success'' =
      Some (JBool False))"
proof (cases domain)
  case None
  then show ?thesis by (simp add: GET_def)
next
  case (Some d)
  show ?thesis
  proof (cases "d = []")
    case True
    then show ?thesis using Some by (simp add: GET_def)
  next
    case False
    show ?thesis
    proof (cases "resolveDns (dmarcDomain d)")
      case (Resolved records)
      have resp: "fst (GET inexact resolveDns queryTime domain) =
          tryBody inexact (cleanDomain d) queryTime records"
        using False Resolved Some by (simp add: GET_Resolved)
      show ?thesis
      proof (cases "find isDmarc (map concat records)")
        case None
        then show ?thesis unfolding resp by (simp add: tryBody_None)
      next
        case (Some r)
        then show ?thesis unfolding resp by (simp add: tryBody_Some)
      qed
    next
      case (Rejected err)
      have resp: "fst (GET inexact resolveDns queryTime domain) = catchBody (cleanDomain d) err"
        using False Rejected Some by (simp add: GET_Rejected)
      show ?thesis
        unfolding resp by (simp add: catchBody_def)
    qed
  qed
qed

text \<open>
  C6. A missing or empty \<^verbatim>\<open>domain\<close> gives status 400 with \<^verbatim>\<open>Domain is required\<close> and
  no name is looked up. When the resolver throws and the message contains
  \<^verbatim>\<open>no record\<close>, the status is 404 and the message names the clean domain; when it
  throws anything else, the status is 500 and the error is the message of what was
  thrown (\<^verbatim>\<open>DMARC lookup failed\<close> when that is not an \<^verbatim>\<open>Error\<close>). Every response is
  either the success object with status 200 or an object of just \<^verbatim>\<open>success: false\<close>
  and \<^verbatim>\<open>error\<close> with status 400, 404 or 500.
\<close>

theorem GET_error_outcomes:
  "GET inexact resolveDns queryTime None =
     (\<lparr>status = 400,
       body = [(''success'', JBool False), (''error'', JString ''Domain is required'')]\<rparr>, []) \<and>
   GET inexact resolveDns queryTime (Some []) =
     (\<lparr>status = 400,
       body = [(''success'', JBool False), (''error'', JString ''Domain is required'')]\<rparr>, []) \<and>
   (d \<noteq> [] \<and> resolveDns (dmarcDomain d) = Rejected err \<and>
    (\<exists>pre post. errorMessage err = pre @ ''no record'' @ post) \<longrightarrow>
      GET inexact resolveDns queryTime (Some d) =
        (\<lparr>status = 404,
          body = [(''success'', JBool False),
                  (''error'', JString (''No DMARC record found for '' @ cleanDomain d @
                     ''. The domain may not have DMARC configured.''))]\<rparr>,
         [dmarcDomain d])) \<and>
   (d \<noteq> [] \<and> resolveDns (dmarcDomain d) = Rejected err \<and>
    \<not> (\<exists>pre post. errorMessage err = pre @ ''no record'' @ post) \<longrightarrow>
      GET inexact resolveDns queryTime (Some d) =
        (\<lparr>status = 500,
          body = [(''success'', JBool False), (''error'', JString (errorMessage err))]\<rparr>,
         [dmarcDomain d])) \<and>
   errorMessage (ErrorObject m) = m \<and>
   ((status (fst (GET inexact resolveDns queryTime domain)) = 200 \<and>
     map fst (body (fst (GET inexact resolveDns queryTime domain))) =
       [''success'', ''domain'', ''record'', ''tags'', ''policy'', ''policyDescription'',
        ''queryTime''] \<and>
     map_of (body (fst (GET inexact resolveDns queryTime domain))) ''success'' =
       Some (JBool True)) \<or>
    (status (fst (GET inexact resolveDns queryTime domain)) \<in> {400, 404, 500} \<and>
     map fst (body (fst (GET inexact resolveDns queryTime domain))) = [''success'', ''error''] \<and>
     map_of (body (fst (GET inexact resolveDns queryTime domain))) ''success'' =
       Some (JBool False)))"
proof -
  have a: "GET inexact resolveDns queryTime None =
     (\<lparr>status = 400,
       body = [(''success'', JBool False), (''error'', JString ''Domain is required'')]\<rparr>, [])"
    "GET inexact resolveDns queryTime (Some []) =
     (\<lparr>status = 400,
       body = [(''success'', JBool False), (''error'', JString ''Domain is required'')]\<rparr>, [])"
    by (simp_all add: GET_def)
  have b: "GET inexact resolveDns queryTime (Some d) =
        (\<lparr>status = 404,
          body = [(''success'', JBool False),
                  (''error'', JString (''No DMARC record found for '' @ cleanDomain d @
                     ''. The domain may not have DMARC configured.''))]\<rparr>,
         [dmarcDomain d])"
    if "d \<noteq> []" "resolveDns (dmarcDomain d) = Rejected err"
      "\<exists>pre post. errorMessage err = pre @ ''no record'' @ post"
    using that by (simp add: GET_Rejected catchBody_def includesStr_iff)
  have c: "GET inexact resolveDns queryTime (Some d) =
        (\<lparr>status = 500,
          body = [(''success'', JBool False), (''error'', JString (errorMessage err))]\<rparr>,
         [dmarcDomain d])"
    if "d \<noteq> []" "resolveDns (dmarcDomain d) = Rejected err"
      "\<not> (\<exists>pre post. errorMessage err = pre @ ''no record'' @ post)"
    using that by (simp add: GET_Rejected catchBody_def includesStr_iff)
  have e: "errorMessage (ErrorObject m) = m"
    by (simp add: errorMessage_def)
  show ?thesis
    using a b c e GET_shape [of inexact resolveDns queryTime domain] by blast
qed


theorem GET_error_outcomes_witness:
  "GET exactRuntime exampleResolver 12 None =
     (\<lparr>status = 400,
       body = [(''success'', JBool False), (''error'', JString ''Domain is required'')]\<rparr>, []) \<and>
   GET exactRuntime exampleResolver 12 (Some ''_dmarc.missing.example'') =
     (\<lparr>status = 404,
       body = [(''success'', JBool False),
               (''error'', JString ''No DMARC record found for missing.example. The domain may not have DMARC configured.'')]\<rparr>,
      [''_dmarc.missing.example'']) \<and>
   GET exactRuntime exampleResolver 12 (Some ''timeout.example'') =
     (\<lparr>status = 500,
       body = [(''success'', JBool False), (''error'', JString ''request timed out'')]\<rparr>,
      [''_dmarc.timeout.example'']) \<and>
   GET exactRuntime exampleResolver 12 (Some ''odd.example'') =
     (\<lparr>status = 500,
       body = [(''success'', JBool False), (''error'', JString ''DMARC lookup failed'')]\<rparr>,
      [''_dmarc.odd.example''])"
proof -
  have cd: "cleanDomain ''_dmarc.missing.example'' = ''missing.example''"
    "cleanDomain ''timeout.example'' = ''timeout.example''"
    "cleanDomain ''odd.example'' = ''odd.example''"
    by (simp_all add: cleanDomain_def stripDmarcPrefix_def stripScheme_def startsWith_def
        isLineTerminator_def)
  have yes: "\<exists>pre post. errorMessage (ErrorObject ''no record found for the name'') =
      pre @ ''no record'' @ post"
  proof -
    have "includesStr (errorMessage (ErrorObject ''no record found for the name'')) ''no record''"
      by code_simp
    then show ?thesis using includesStr_iff by blast
  qed
  have no: "\<not> (\<exists>pre post. errorMessage (ErrorObject ''request timed out'') =
      pre @ ''no record'' @ post)"
    "\<not> (\<exists>pre post. errorMessage OtherValue = pre @ ''no record'' @ post)"
  proof -
    have "\<not> includesStr (errorMessage (ErrorObject ''request timed out'')) ''no record''"
      "\<not> includesStr (errorMessage OtherValue) ''no record''"
      by code_simp+
    then show "\<not> (\<exists>pre post. errorMessage (ErrorObject ''request timed out'') =
        pre @ ''no record'' @ post)"
      "\<not> (\<exists>pre post. errorMessage OtherValue = pre @ ''no record'' @ post)"
      using includesStr_iff by blast+
  qed
  have msg: "errorMessage (ErrorObject ''request timed out'') = ''request timed out''"
    "errorMessage OtherValue = ''DMARC lookup failed''"
    by (simp_all add: errorMessage_def)
  have a: "GET exactRuntime exampleResolver 12 None =
     (\<lparr>status = 400,
       body = [(''success'', JBool False), (''error'', JString ''Domain is required'')]\<rparr>, [])"
    using GET_error_outcomes [of exactRuntime exampleResolver 12] by blast
  have b: "GET exactRuntime exampleResolver 12 (Some ''_dmarc.missing.example'') =
     (\<lparr>status = 404,
       body = [(''success'', JBool False),
               (''error'', JString (''No DMARC record found for '' @
                  cleanDomain ''_dmarc.missing.example'' @
                  ''. The domain may not have DMARC configured.''))]\<rparr>,
      [dmarcDomain ''_dmarc.missing.example''])"
    using GET_error_outcomes [of exactRuntime exampleResolver 12 "''_dmarc.missing.example''"
        "ErrorObject ''no record found for the name''"]
      example_names_not_Nil(9) exampleResolver_names(11) yes
    by blast
  have c: "GET exactRuntime exampleResolver 12 (Some ''timeout.example'') =
     (\<lparr>status = 500,
       body = [(''success'', JBool False),
               (''error'', JString (errorMessage (ErrorObject ''request timed out'')))]\<rparr>,
      [dmarcDomain ''timeout.example''])"
    using GET_error_outcomes [of exactRuntime exampleResolver 12 "''timeout.example''"
        "ErrorObject ''request timed out''"]
      example_names_not_Nil(7) exampleResolver_names(9) no(1)
    by blast
  have d: "GET exactRuntime exampleResolver 12 (Some ''odd.example'') =
     (\<lparr>status = 500,
       body = [(''success'', JBool False), (''error'', JString (errorMessage OtherValue))]\<rparr>,
      [dmarcDomain ''odd.example''])"
    using GET_error_outcomes [of exactRuntime exampleResolver 12 "''odd.example''" OtherValue]
      example_names_not_Nil(8) exampleResolver_names(10) no(2)
    by blast
  show ?thesis
    using a b c d by (simp add: cd msg dmarcDomain_def)
qed

section \<open>The handler: the clean domain\<close>

text \<open>
  For a string with no line terminator the three replacements do what their order
  says: the prefix \<^verbatim>\<open>_dmarc.\<close> goes, then the scheme, then everything from the
  first slash on.
\<close>

lemma stripPath_single_line:
  "filter isLineTerminator s = [] \<Longrightarrow> stripPath s = takeWhile (\<lambda>c. c \<noteq> CHR ''/'') s"
  by (induction s) (auto split: if_splits)

lemma filter_drop_Nil: "filter P xs = [] \<Longrightarrow> filter P (drop n xs) = []"
  by (auto simp: filter_empty_conv dest: in_set_dropD)

lemma cleanDomain_single_line:
  assumes "filter isLineTerminator d = []"
  shows "cleanDomain d = takeWhile (\<lambda>c. c \<noteq> CHR ''/'') (stripScheme (stripDmarcPrefix d))"
proof -
  have "filter isLineTerminator (stripDmarcPrefix d) = []"
    using assms by (simp add: stripDmarcPrefix_def filter_drop_Nil)
  then have "filter isLineTerminator (stripScheme (stripDmarcPrefix d)) = []"
    by (simp add: stripScheme_def filter_drop_Nil)
  then show ?thesis
    unfolding cleanDomain_def by (rule stripPath_single_line)
qed

lemma cleanDomain_examples:
  "cleanDomain ''_dmarc.example.com'' = ''example.com''"
  "cleanDomain ''https://example.com/path'' = ''example.com''"
  "cleanDomain ''http://_dmarc.example.com/'' = ''_dmarc.example.com''"
  by (simp_all add: cleanDomain_def stripDmarcPrefix_def stripScheme_def startsWith_def
      isLineTerminator_def)

text \<open>
  C5. The claim is for every domain string. The parameter \<^verbatim>\<open>domain\<close> is decoded from
  the query string and may hold a line feed (\<^verbatim>\<open>?domain=example.com/a%0Ab\<close>). With one
  after the first slash, \<^verbatim>\<open>/\/.*$/\<close> does not match, since \<^verbatim>\<open>.\<close> stops at the line
  feed and \<^verbatim>\<open>$\<close> is the end of the string: nothing is removed, where the claim has
  everything from the first slash removed.
\<close>

theorem cleanDomain_line_break:
  "cleanDomain ''example.com/a\<newline>b'' = ''example.com/a\<newline>b'' \<and>
   takeWhile (\<lambda>c. c \<noteq> CHR ''/'') (stripScheme (stripDmarcPrefix ''example.com/a\<newline>b'')) =
     ''example.com''"
  by (simp add: cleanDomain_def stripDmarcPrefix_def stripScheme_def startsWith_def
      isLineTerminator_def)

end
